theory Spec2Isabelle
  imports Complex_Main "HOL-Library.Multiset" "HOL-Library.Monad_Syntax"
begin

section \<open>Data model\<close>

text \<open>
  The review service exists twice: \<^verbatim>\<open>src/server.js\<close> is an Express application,
  \<^verbatim>\<open>src/unnamed/part_000\<close> is a single-invocation function with a handler of its own.
  Both run the same SQL statements against one table \<^verbatim>\<open>reviews\<close>. The statements are
  modelled once, the two sets of handlers separately.

  A point in time (a \<^verbatim>\<open>TIMESTAMP WITH TIME ZONE\<close> value, a JavaScript \<^verbatim>\<open>Date\<close>) is
  the number of microseconds since the epoch.
\<close>

type_synonym instant = nat

text \<open>
  One row of the table created by \<^verbatim>\<open>initDatabase\<close> (server.js, lines 28 to 41). The
  fields carry the column names with the prefix \<open>r_\<close>. A column that is
  \<^verbatim>\<open>NOT NULL\<close> has a plain type, a nullable one an option type; \<^verbatim>\<open>created_at\<close> and
  \<^verbatim>\<open>updated_at\<close> are always set by the statements of this program and are modelled
  without \<^verbatim>\<open>NULL\<close>. A \<^verbatim>\<open>DECIMAL(3,2)\<close> is the rational number it denotes.
\<close>

record review_row =
  r_id :: int
  r_audio_id :: int
  r_title :: string
  r_rating :: rat
  r_timestamp :: "instant option"
  r_date :: string
  r_time :: string
  r_user_agent :: "string option"
  r_session_id :: string
  r_ip_address :: "string option"
  r_created_at :: instant
  r_updated_at :: instant

type_synonym store = "review_row list"

text \<open>
  The value handed to \<^verbatim>\<open>JSON.stringify\<close> or to \<^verbatim>\<open>res.json\<close>, as a tree. \<open>JDate\<close> is
  a \<^verbatim>\<open>Date\<close> object, \<open>JNum\<close> a number that need not be an integer.
\<close>

datatype json =
    JNull
  | JBool bool
  | JInt int
  | JNum rat
  | JStr string
  | JDate instant
  | JArr "json list"
  | JObj "(string \<times> json) list"

datatype payload = Text string | Json json | SendFile string

record response =
  statusCode :: nat
  headers :: "(string \<times> string) list"
  body :: payload

text \<open>
  The body of a submit request after \<^verbatim>\<open>JSON.parse\<close>, at the types the table gives the
  fields. A field is \<open>None\<close> when the object does not have it (\<^verbatim>\<open>undefined\<close>). A body
  with a field of another type (a text as rating, \<^verbatim>\<open>null\<close> as title) is not a value of this
  record.
\<close>

record review_body =
  audioId :: "int option"
  title :: "string option"
  rating :: "rat option"
  timestamp :: "string option"
  date :: "string option"
  time :: "string option"
  userAgent :: "string option"
  sessionId :: "string option"

text \<open>
  The event of the function adapter. \<open>event_body\<close> is \<open>None\<close> when
  \<^verbatim>\<open>JSON.parse(event.body)\<close> throws or yields \<^verbatim>\<open>null\<close>; \<open>queryStringParameters\<close> is
  \<open>None\<close> when the event has no query string.
\<close>

record event =
  httpMethod :: string
  path :: string
  event_headers :: "string \<rightharpoonup> string"
  queryStringParameters :: "(string \<rightharpoonup> string) option"
  event_body :: "review_body option"

text \<open>
  The Express request, with the properties that the callbacks of server.js read.
\<close>

record request =
  req_method :: string
  req_path :: string
  req_headers :: "string \<rightharpoonup> string"
  req_query :: "string \<rightharpoonup> string"
  req_body :: review_body
  req_ip :: "string option"
  connection_remoteAddress :: "string option"

section \<open>JavaScript operators\<close>

text \<open>\<^verbatim>\<open>!x\<close> is true for \<^verbatim>\<open>undefined\<close>, for the number 0 and for the empty string.\<close>

fun falsy_int :: "int option \<Rightarrow> bool" where
  "falsy_int None = True"
| "falsy_int (Some n) = (n = 0)"

fun falsy_str :: "string option \<Rightarrow> bool" where
  "falsy_str None = True"
| "falsy_str (Some s) = (s = [])"

text \<open>\<^verbatim>\<open>a || b\<close> on strings that may be undefined.\<close>

definition js_or :: "string option \<Rightarrow> string option \<Rightarrow> string option" where
  "js_or a b = (if falsy_str a then b else a)"

text \<open>
  \<^verbatim>\<open>rating < c\<close> and \<^verbatim>\<open>rating > c\<close>: a comparison with \<^verbatim>\<open>undefined\<close> is false.
\<close>

fun js_lt :: "rat option \<Rightarrow> rat \<Rightarrow> bool" where
  "js_lt None c = False"
| "js_lt (Some x) c = (x < c)"

fun js_gt :: "rat option \<Rightarrow> rat \<Rightarrow> bool" where
  "js_gt None c = False"
| "js_gt (Some x) c = (c < x)"

subsection \<open>Numbers and texts\<close>

text \<open>
  A query parameter is a text; the default of a destructuring pattern can be a number
  (\<^verbatim>\<open>limit = 1000\<close>).
\<close>

datatype qval = QNum int | QStr string

definition is_space :: "char \<Rightarrow> bool" where
  "is_space c \<longleftrightarrow> of_char c \<in> {9, 10, 11, 12, 13, 32 :: nat}"

text \<open>The value of a character as a digit of the radix, if it is one.\<close>

definition digit_of :: "nat \<Rightarrow> char \<Rightarrow> nat option" where
  "digit_of R c =
     (let n = (of_char c :: nat);
          d = (if 48 \<le> n \<and> n \<le> 57 then Some (n - 48)
               else if 97 \<le> n \<and> n \<le> 122 then Some (n - 87)
               else if 65 \<le> n \<and> n \<le> 90 then Some (n - 55)
               else None)
      in case d of None \<Rightarrow> None | Some v \<Rightarrow> if v < R then Some v else None)"

fun digits_prefix :: "nat \<Rightarrow> string \<Rightarrow> nat list" where
  "digits_prefix R [] = []"
| "digits_prefix R (c # cs) =
     (case digit_of R c of None \<Rightarrow> [] | Some d \<Rightarrow> d # digits_prefix R cs)"

text \<open>
  A JavaScript number is a double: 0, or a rational \<open>m * 2 ^ e\<close> with a mantissa \<open>m\<close> of 53
  bits. \<open>to_double\<close> is the double nearest to a rational, the one with the even mantissa
  when two are equally near. The numbers of this program lie far from the largest and the
  smallest double, so neither overflow nor the subnormal range is modelled.
\<close>

function bit_length :: "int \<Rightarrow> nat" where
  "bit_length n = (if n \<le> 0 then 0 else Suc (bit_length (n div 2)))"
  by pat_completeness auto

termination
  by (relation "measure nat") auto

declare bit_length.simps [simp del]

definition pow2 :: "int \<Rightarrow> rat" where
  "pow2 e = (if 0 \<le> e then 2 ^ nat e else 1 / 2 ^ nat (- e))"

definition round_half_even :: "rat \<Rightarrow> int" where
  "round_half_even x =
     (let f = \<lfloor>x\<rfloor>; r = x - of_int f in
      if 1 / 2 < r \<or> (r = 1 / 2 \<and> odd f) then f + 1 else f)"

definition to_double :: "rat \<Rightarrow> rat" where
  "to_double q =
     (if q = 0 then 0
      else
        let (a, b) = quotient_of \<bar>q\<bar>;
            d = int (bit_length a) - int (bit_length b);
            e = (if 2 ^ 53 \<le> \<bar>q\<bar> / pow2 (d - 53) then d - 52 else d - 53);
            m = round_half_even (\<bar>q\<bar> / pow2 e)
        in (if q < 0 then - 1 else 1) * of_int m * pow2 e)"

text \<open>The double of an integer; the integers up to 2^53 are doubles.\<close>

definition double_of_int :: "int \<Rightarrow> int" where
  "double_of_int n = (if \<bar>n\<bar> \<le> 2 ^ 53 then n else \<lfloor>to_double (of_int n)\<rfloor>)"

text \<open>
  \<^verbatim>\<open>parseInt(s)\<close> without a radix: white space is skipped, a sign is read, \<^verbatim>\<open>0x\<close>
  selects radix 16, and the longest run of digits is the value, as a double; \<open>None\<close> is
  \<^verbatim>\<open>NaN\<close>. The white space is that of ASCII.
\<close>

definition parseInt_str :: "string \<Rightarrow> int option" where
  "parseInt_str s =
     (let s1 = dropWhile is_space s;
          neg = (take 1 s1 = ''-'');
          s2 = (if take 1 s1 = ''+'' \<or> take 1 s1 = ''-'' then drop 1 s1 else s1);
          hex = (take 2 s2 = ''0x'' \<or> take 2 s2 = ''0X'');
          R = (if hex then 16 else 10 :: nat);
          Z = digits_prefix R (if hex then drop 2 s2 else s2)
      in if Z = [] then None
         else Some ((if neg then - 1 else 1)
                    * double_of_int (foldl (\<lambda>acc d. acc * int R + int d) 0 Z)))"

fun parseInt :: "qval \<Rightarrow> int option" where
  "parseInt (QNum n) = Some n"
| "parseInt (QStr s) = parseInt_str s"

text \<open>A number in a JSON value; \<^verbatim>\<open>JSON.stringify\<close> writes \<^verbatim>\<open>NaN\<close> as \<^verbatim>\<open>null\<close>.\<close>

fun json_number :: "int option \<Rightarrow> json" where
  "json_number None = JNull"
| "json_number (Some n) = JInt n"

definition digit_char :: "nat \<Rightarrow> char" where
  "digit_char d = char_of (48 + d)"

fun digits10 :: "nat \<Rightarrow> string" where
  "digits10 n = (if n < 10 then [digit_char n] else digits10 (n div 10) @ [digit_char (n mod 10)])"

declare digits10.simps [simp del]

text \<open>\<^verbatim>\<open>String(n)\<close> for an integer.\<close>

definition String_int :: "int \<Rightarrow> string" where
  "String_int n = (if n < 0 then CHR ''-'' # digits10 (nat (- n)) else digits10 (nat n))"

text \<open>
  \<^verbatim>\<open>String(x)\<close> for a double \<open>x\<close> that is a natural number below 10^21, as the number
  that its digits denote. The digits are the fewest that still read back as \<open>x\<close>, zeros
  behind them; of two such numbers the one nearer to \<open>x\<close>, and of two equally near the
  one with the even last digit. Up to 2^53 this is \<open>x\<close> itself.
  \<open>candidates k x\<close> are the numbers with \<open>k\<close> zeros at the end next to \<open>x\<close> that read
  back as \<open>x\<close>, the preferred one first.
\<close>

definition candidates :: "nat \<Rightarrow> int \<Rightarrow> int list" where
  "candidates k x =
     (let p = 10 ^ k; lo = x div p * p; hi = lo + p in
      filter (\<lambda>y. double_of_int y = x)
        (if x - lo < hi - x \<or> (x - lo = hi - x \<and> even (x div p)) then [lo, hi] else [hi, lo]))"

definition shortest_decimal :: "int \<Rightarrow> int" where
  "shortest_decimal x =
     (if x \<le> 2 ^ 53 then x
      else case concat (map (\<lambda>k. candidates k x) (rev [0..<21])) of [] \<Rightarrow> x | y # _ \<Rightarrow> y)"

text \<open>
  \<^verbatim>\<open>String(x)\<close> for a number read from a \<^verbatim>\<open>DECIMAL(3,2)\<close>: the decimal without its
  trailing zeros. A decimal of three digits survives \<^verbatim>\<open>parseFloat\<close> and \<^verbatim>\<open>String\<close>
  unchanged, which is why the number is the rational that the column holds.
\<close>

definition String_decimal2 :: "rat \<Rightarrow> string" where
  "String_decimal2 q =
     (let h = nat \<bar>\<lfloor>q * 100\<rfloor>\<bar>; f = h mod 100 in
      (if q < 0 then ''-'' else '''') @ digits10 (h div 100) @
      (if f = 0 then ''''
       else ''.'' @ [digit_char (f div 10)] @ (if f mod 10 = 0 then '''' else [digit_char (f mod 10)])))"

text \<open>
  \<^verbatim>\<open>x.toFixed(2)\<close> for a double \<open>x\<close>: the sign, then the integer nearest to 100 |x| (the
  larger of two), written with a point before its last two digits.
\<close>

definition toFixed2 :: "rat \<Rightarrow> string" where
  "toFixed2 x =
     (let n = nat \<lfloor>\<bar>x\<bar> * 100 + 1 / 2\<rfloor> in
      (if x < 0 then ''-'' else '''') @ digits10 (n div 100) @ ''.'' @
      [digit_char (n mod 100 div 10), digit_char (n mod 10)])"

text \<open>\<^verbatim>\<open>xs.join(sep)\<close> on texts.\<close>

fun join :: "string \<Rightarrow> string list \<Rightarrow> string" where
  "join sep [] = []"
| "join sep [x] = x"
| "join sep (x # y # ys) = x @ sep @ join sep (y # ys)"

text \<open>\<^verbatim>\<open>s.replace(pat, rep)\<close> with a text as pattern: the first occurrence only.\<close>

fun replace_first :: "string \<Rightarrow> string \<Rightarrow> string \<Rightarrow> string" where
  "replace_first pat rep [] = (if pat = [] then rep else [])"
| "replace_first pat rep (c # cs) =
     (if take (length pat) (c # cs) = pat then rep @ drop (length pat) (c # cs)
      else c # replace_first pat rep cs)"

text \<open>\<^verbatim>\<open>s.replace(/"/g, '""')\<close>: every double quote twice.\<close>

definition double_quotes :: "string \<Rightarrow> string" where
  "double_quotes s = concat (map (\<lambda>c. if c = CHR 0x22 then [CHR 0x22, CHR 0x22] else [c]) s)"

section \<open>The statements on the table\<close>

text \<open>
  \<^verbatim>\<open>ORDER BY created_at DESC\<close>. SQL leaves the order of rows with equal keys open; the
  model keeps them in their order in the table. The properties below that speak of this
  order hold for every order of the rows with equal keys.
\<close>

definition order_by_created_at_desc :: "review_row list \<Rightarrow> review_row list" where
  "order_by_created_at_desc rows = sort_key (\<lambda>r. - int (r_created_at r)) rows"

text \<open>
  \<^verbatim>\<open>SELECT * FROM reviews WHERE session_id = $1 ORDER BY created_at DESC\<close>. The
  parameter is \<open>None\<close> for \<^verbatim>\<open>undefined\<close>, which the driver sends as \<^verbatim>\<open>NULL\<close>; no row
  is equal to it.
\<close>

definition select_by_session :: "store \<Rightarrow> string option \<Rightarrow> review_row list" where
  "select_by_session db p =
     order_by_created_at_desc (filter (\<lambda>r. Some (r_session_id r) = p) db)"

text \<open>
  What a request meets outside the program: the clock of the database
  (\<^verbatim>\<open>CURRENT_TIMESTAMP\<close>), the value that the sequence behind \<^verbatim>\<open>id SERIAL\<close> hands to
  an \<^verbatim>\<open>INSERT\<close>, and the input conversions of the column types
  \<^verbatim>\<open>TIMESTAMP WITH TIME ZONE\<close> and \<^verbatim>\<open>INET\<close>, which read a text and reject it with
  \<open>None\<close>. The clock of the JavaScript runtime (\<^verbatim>\<open>new Date()\<close>) and its two
  renderings of a \<^verbatim>\<open>Date\<close> (\<^verbatim>\<open>toISOString\<close>, and \<^verbatim>\<open>toString\<close> in the time zone of the
  process) complete it.
\<close>

record env =
  now :: instant
  nextval :: int
  timestamptz_in :: "string \<Rightarrow> instant option"
  inet_in :: "string \<Rightarrow> string option"
  new_Date :: instant
  toISOString :: "instant \<Rightarrow> string"
  date_toString :: "instant \<Rightarrow> string"

subsection \<open>Column types\<close>

text \<open>
  A statement that the database rejects makes \<^verbatim>\<open>pool.query\<close> throw; the functions
  below return \<open>None\<close> for it. A parameter that is \<^verbatim>\<open>undefined\<close> is sent as
  \<^verbatim>\<open>NULL\<close>. The store is taken to be reachable: a statement fails only for its values.
\<close>

text \<open>\<^verbatim>\<open>NOT NULL\<close>: \<^verbatim>\<open>NULL\<close> is rejected.\<close>

definition not_null :: "'a option \<Rightarrow> 'a option" where
  "not_null p = p"

fun nullable :: "('a \<Rightarrow> 'b option) \<Rightarrow> 'a option \<Rightarrow> 'b option option" where
  "nullable f None = Some None"
| "nullable f (Some x) = map_option Some (f x)"

text \<open>\<^verbatim>\<open>INTEGER\<close>: 32 bits, signed.\<close>

definition int4 :: "int \<Rightarrow> int option" where
  "int4 n = (if - 2147483648 \<le> n \<and> n \<le> 2147483647 then Some n else None)"

text \<open>
  \<^verbatim>\<open>VARCHAR(n)\<close>: a longer text is an error, unless all that exceeds \<open>n\<close> is spaces,
  which are cut off. The database counts characters; the length of a text of this theory
  is the same number for ASCII.
\<close>

definition varchar :: "nat \<Rightarrow> string \<Rightarrow> string option" where
  "varchar n s =
     (if length s \<le> n then Some s
      else if list_all (\<lambda>c. c = CHR '' '') (drop n s) then Some (take n s)
      else None)"

text \<open>
  \<^verbatim>\<open>DECIMAL(3,2)\<close>: rounded to two places, halves away from zero; an error from 10 on.
\<close>

definition numeric_3_2 :: "rat \<Rightarrow> rat option" where
  "numeric_3_2 q =
     (let h = (if q < 0 then - \<lfloor>- q * 100 + 1 / 2\<rfloor> else \<lfloor>q * 100 + 1 / 2\<rfloor>) in
      if 1000 \<le> \<bar>h\<bar> then None else Some (of_int h / 100))"

text \<open>
  \<^verbatim>\<open>INET\<close>: the text of an address is made of hexadecimal digits, points, colons and a
  slash, and every other text is an error. Which of these texts are addresses, and how the
  column writes them, is the conversion \<open>inet_in\<close> of the environment.
\<close>

definition inet_char :: "char \<Rightarrow> bool" where
  "inet_char c \<longleftrightarrow> c \<in> set ''0123456789abcdefABCDEF.:/''"

definition inet :: "env \<Rightarrow> string \<Rightarrow> string option" where
  "inet e s = (if s \<noteq> [] \<and> list_all inet_char s then inet_in e s else None)"

text \<open>\<^verbatim>\<open>CHECK (rating >= 0 AND rating <= 5)\<close>\<close>

definition check_rating :: "rat \<Rightarrow> rat option" where
  "check_rating q = (if 0 \<le> q \<and> q \<le> 5 then Some q else None)"

text \<open>
  The seven columns that both the \<^verbatim>\<open>UPDATE\<close> and the \<^verbatim>\<open>INSERT\<close> write, converted
  from the parameters of the statement.
\<close>

record review_values =
  v_title :: string
  v_rating :: rat
  v_timestamp :: "instant option"
  v_date :: string
  v_time :: string
  v_user_agent :: "string option"
  v_ip_address :: "string option"

definition column_values ::
  "env \<Rightarrow> string option \<Rightarrow> rat option \<Rightarrow> string option \<Rightarrow> string option \<Rightarrow>
   string option \<Rightarrow> string option \<Rightarrow> string option \<Rightarrow> review_values option" where
  "column_values e title' rating' timestamp' date' time' userAgent' clientIp =
     do {
       t \<leftarrow> not_null title' \<bind> varchar 500;
       r \<leftarrow> not_null rating' \<bind> numeric_3_2 \<bind> check_rating;
       ts \<leftarrow> nullable (timestamptz_in e) timestamp';
       d \<leftarrow> not_null date' \<bind> varchar 20;
       tm \<leftarrow> not_null time' \<bind> varchar 20;
       ip \<leftarrow> nullable (inet e) clientIp;
       Some \<lparr>v_title = t, v_rating = r, v_timestamp = ts, v_date = d, v_time = tm,
             v_user_agent = userAgent', v_ip_address = ip\<rparr>
     }"

subsection \<open>The statements of the submit operation\<close>

text \<open>\<^verbatim>\<open>WHERE session_id = $1 AND audio_id = $2\<close>, for a row.\<close>

definition same_pair :: "string option \<Rightarrow> int \<Rightarrow> review_row \<Rightarrow> bool" where
  "same_pair p a r \<longleftrightarrow> Some (r_session_id r) = p \<and> r_audio_id r = a"

text \<open>
  \<^verbatim>\<open>SELECT id FROM reviews WHERE session_id = $1 AND audio_id = $2\<close>. The second
  parameter is read as an \<^verbatim>\<open>INTEGER\<close>; a parameter that is \<^verbatim>\<open>NULL\<close> selects nothing.
\<close>

definition select_existing :: "store \<Rightarrow> string option \<Rightarrow> int option \<Rightarrow> int list option" where
  "select_existing db sessionId' audioId' =
     (case audioId' of
        None \<Rightarrow> Some []
      | Some n \<Rightarrow> do { a \<leftarrow> int4 n; Some (map r_id (filter (same_pair sessionId' a) db)) })"

text \<open>
  \<^verbatim>\<open>UPDATE reviews SET title = $1, rating = $2, timestamp = $3, date = $4, time = $5,
  user_agent = $6, ip_address = $7, updated_at = CURRENT_TIMESTAMP
  WHERE session_id = $8 AND audio_id = $9 RETURNING id\<close>.
  The result is the ids of the rows written and the new table. The handlers run the
  statement only after the \<^verbatim>\<open>SELECT\<close> has found a row for the same two parameters:
  the audio id is not \<^verbatim>\<open>NULL\<close> then, a row is written, and the new values are checked
  against the columns.
\<close>

definition update_review ::
  "env \<Rightarrow> store \<Rightarrow> string option \<Rightarrow> rat option \<Rightarrow> string option \<Rightarrow> string option \<Rightarrow>
   string option \<Rightarrow> string option \<Rightarrow> string option \<Rightarrow> string option \<Rightarrow> int option \<Rightarrow>
   (int list \<times> store) option" where
  "update_review e db title' rating' timestamp' date' time' userAgent' clientIp sessionId' audioId' =
     do {
       a \<leftarrow> not_null audioId' \<bind> int4;
       v \<leftarrow> column_values e title' rating' timestamp' date' time' userAgent' clientIp;
       Some (map r_id (filter (same_pair sessionId' a) db),
             map (\<lambda>r. if same_pair sessionId' a r
                       then r\<lparr>r_title := v_title v, r_rating := v_rating v,
                              r_timestamp := v_timestamp v, r_date := v_date v,
                              r_time := v_time v, r_user_agent := v_user_agent v,
                              r_ip_address := v_ip_address v, r_updated_at := now e\<rparr>
                       else r) db)
     }"

text \<open>
  \<^verbatim>\<open>INSERT INTO reviews (audio_id, title, rating, timestamp, date, time, user_agent,
  session_id, ip_address) VALUES ($1, ..., $9) RETURNING id\<close>.
  The id comes from the sequence and must be new (\<^verbatim>\<open>PRIMARY KEY\<close>); \<^verbatim>\<open>created_at\<close>
  and \<^verbatim>\<open>updated_at\<close> take their default, the current time.
\<close>

definition insert_review ::
  "env \<Rightarrow> store \<Rightarrow> int option \<Rightarrow> string option \<Rightarrow> rat option \<Rightarrow> string option \<Rightarrow>
   string option \<Rightarrow> string option \<Rightarrow> string option \<Rightarrow> string option \<Rightarrow> string option \<Rightarrow>
   (int list \<times> store) option" where
  "insert_review e db audioId' title' rating' timestamp' date' time' userAgent' sessionId' clientIp =
     do {
       a \<leftarrow> not_null audioId' \<bind> int4;
       v \<leftarrow> column_values e title' rating' timestamp' date' time' userAgent' clientIp;
       s \<leftarrow> not_null sessionId' \<bind> varchar 100;
       if nextval e \<in> set (map r_id db) then None
       else Some ([nextval e],
                  db @ [\<lparr>r_id = nextval e, r_audio_id = a, r_title = v_title v,
                         r_rating = v_rating v, r_timestamp = v_timestamp v,
                         r_date = v_date v, r_time = v_time v,
                         r_user_agent = v_user_agent v, r_session_id = s,
                         r_ip_address = v_ip_address v, r_created_at = now e,
                         r_updated_at = now e\<rparr>])
     }"

text \<open>
  The part that the two submit handlers share word for word (part\_000 lines 149 to 201,
  server.js lines 123 to 172): look the pair up, update or insert, and read
  \<^verbatim>\<open>result.rows[0].id\<close>. The first component is \<open>None\<close> when a statement or the read of
  \<^verbatim>\<open>rows[0]\<close> throws, which the handlers catch.
\<close>

definition upsert_review :: "env \<Rightarrow> store \<Rightarrow> review_body \<Rightarrow> string option \<Rightarrow> int option \<times> store" where
  "upsert_review e db b clientIp =
     (case select_existing db (sessionId b) (audioId b) of
        None \<Rightarrow> (None, db)
      | Some existingReview \<Rightarrow>
          (case (if length existingReview > 0
                 then update_review e db (title b) (rating b) (timestamp b) (date b) (time b)
                        (userAgent b) clientIp (sessionId b) (audioId b)
                 else insert_review e db (audioId b) (title b) (rating b) (timestamp b) (date b)
                        (time b) (userAgent b) (sessionId b) clientIp) of
             None \<Rightarrow> (None, db)
           | Some (rows, db') \<Rightarrow>
               (case rows of [] \<Rightarrow> (None, db') | i # _ \<Rightarrow> (Some i, db'))))"

subsection \<open>The statement of the admin list\<close>

text \<open>
  \<^verbatim>\<open>SELECT r.*, COUNT(*) OVER() as total_count FROM reviews r
  ORDER BY r.created_at DESC LIMIT $1 OFFSET $2\<close>.
  The window is the whole result before \<^verbatim>\<open>LIMIT\<close> and \<^verbatim>\<open>OFFSET\<close>, so every row of the
  page carries the number of rows of the table. The parameters are the results of
  \<^verbatim>\<open>parseInt\<close>, numbers of JavaScript. The driver sends a number as the text
  \<^verbatim>\<open>String(x)\<close>, and the database reads the text as a \<^verbatim>\<open>BIGINT\<close>: \<open>bigint_param\<close> is the
  number read, \<open>None\<close> when the text is \<^verbatim>\<open>NaN\<close> or denotes no \<^verbatim>\<open>BIGINT\<close>. A negative
  \<^verbatim>\<open>LIMIT\<close> or \<^verbatim>\<open>OFFSET\<close> is an error: \<open>row_count_param\<close> is the number of rows
  that the database takes from a parameter, \<open>None\<close> when it rejects the parameter.
\<close>

fun bigint_param :: "int option \<Rightarrow> int option" where
  "bigint_param None = None"
| "bigint_param (Some x) =
     (let y = (if x < 0 then - shortest_decimal (- x) else shortest_decimal x) in
      if - (2 ^ 63) \<le> y \<and> y < 2 ^ 63 then Some y else None)"

definition row_count_param :: "int option \<Rightarrow> nat option" where
  "row_count_param x =
     (case bigint_param x of
        None \<Rightarrow> None
      | Some n \<Rightarrow> if n < 0 then None else Some (nat n))"

definition select_page :: "store \<Rightarrow> int option \<Rightarrow> int option \<Rightarrow> (review_row \<times> nat) list option" where
  "select_page db limit offset =
     (case (row_count_param limit, row_count_param offset) of
        (Some l, Some k) \<Rightarrow>
          Some (map (\<lambda>r. (r, length db)) (take l (drop k (order_by_created_at_desc db))))
      | _ \<Rightarrow> None)"

subsection \<open>The statements of the analytics\<close>

text \<open>
  \<^verbatim>\<open>SELECT COUNT(*), AVG(rating), COUNT(DISTINCT session_id), COUNT(DISTINCT audio_id),
  MIN(created_at), MAX(created_at) FROM reviews\<close>: always one row. \<^verbatim>\<open>AVG\<close>, \<^verbatim>\<open>MIN\<close>
  and \<^verbatim>\<open>MAX\<close> of no rows are \<^verbatim>\<open>NULL\<close>.
\<close>

record analytics_row =
  total_reviews :: nat
  average_rating :: "rat option"
  unique_sessions :: nat
  reviewed_audios :: nat
  first_review :: "instant option"
  latest_review :: "instant option"

definition avg :: "rat list \<Rightarrow> rat option" where
  "avg xs = (if xs = [] then None else Some (sum_list xs / of_nat (length xs)))"

definition select_analytics :: "store \<Rightarrow> analytics_row" where
  "select_analytics db =
     \<lparr>total_reviews = length db,
      average_rating = avg (map r_rating db),
      unique_sessions = length (remdups (map r_session_id db)),
      reviewed_audios = length (remdups (map r_audio_id db)),
      first_review = (if db = [] then None else Some (Min (set (map r_created_at db)))),
      latest_review = (if db = [] then None else Some (Max (set (map r_created_at db))))\<rparr>"

text \<open>
  \<^verbatim>\<open>SELECT FLOOR(rating) as rating_floor, COUNT(*) as count FROM reviews
  GROUP BY FLOOR(rating) ORDER BY rating_floor\<close>
\<close>

definition select_rating_distribution :: "store \<Rightarrow> (int \<times> nat) list" where
  "select_rating_distribution db =
     map (\<lambda>k. (k, length (filter (\<lambda>r. \<lfloor>r_rating r\<rfloor> = k) db)))
         (sort (remdups (map (\<lambda>r. \<lfloor>r_rating r\<rfloor>) db)))"

text \<open>
  \<^verbatim>\<open>SELECT audio_id, title, COUNT(*) as review_count, AVG(rating) as average_rating
  FROM reviews GROUP BY audio_id, title ORDER BY review_count DESC\<close>.
  SQL leaves the order of groups of equal size open; the model fixes one, and no property
  below depends on which.
\<close>

record audio_stats_row =
  s_audio_id :: int
  s_title :: string
  s_review_count :: nat
  s_average_rating :: "rat option"

definition select_audio_stats :: "store \<Rightarrow> audio_stats_row list" where
  "select_audio_stats db =
     rev (sort_key s_review_count
       (map (\<lambda>(a, t).
               let grp = filter (\<lambda>r. r_audio_id r = a \<and> r_title r = t) db in
               \<lparr>s_audio_id = a, s_title = t, s_review_count = length grp,
                s_average_rating = avg (map r_rating grp)\<rparr>)
            (remdups (map (\<lambda>r. (r_audio_id r, r_title r)) db))))"

section \<open>The function adapter (part\_000)\<close>

definition corsHeaders :: "(string \<times> string) list" where
  "corsHeaders =
     [(''Access-Control-Allow-Origin'', ''*''),
      (''Access-Control-Allow-Headers'', ''Content-Type''),
      (''Access-Control-Allow-Methods'', ''GET, POST, OPTIONS'')]"

definition error_json :: "string \<Rightarrow> payload" where
  "error_json msg = Json (JObj [(''error'', JStr msg)])"

text \<open>\<^verbatim>\<open>event.queryStringParameters || {}\<close>\<close>

definition query_of :: "event \<Rightarrow> string \<rightharpoonup> string" where
  "query_of ev = (case queryStringParameters ev of None \<Rightarrow> Map.empty | Some q \<Rightarrow> q)"

text \<open>
  The object that both list callbacks build from a row (part\_000 lines 83 to 93, server.js
  lines 75 to 85).
\<close>

definition public_review :: "review_row \<Rightarrow> json" where
  "public_review row =
     JObj [(''id'', JInt (r_id row)),
           (''audioId'', JInt (r_audio_id row)),
           (''title'', JStr (r_title row)),
           (''rating'', JNum (r_rating row)),
           (''timestamp'', (case r_timestamp row of None \<Rightarrow> JNull | Some t \<Rightarrow> JDate t)),
           (''date'', JStr (r_date row)),
           (''time'', JStr (r_time row)),
           (''sessionId'', JStr (r_session_id row)),
           (''createdAt'', JDate (r_created_at row))]"

text \<open>
  The list handler (part\_000 lines 61 to 104) with the calls of \<^verbatim>\<open>pool.query\<close> that it
  makes, in their order: a call is the text of the statement and its parameters. The answer
  alone is \<open>getReviews\<close>.
\<close>

type_synonym query = "string \<times> string option list"

definition getReviews_run :: "store \<Rightarrow> event \<Rightarrow> response \<times> query list" where
  "getReviews_run db ev =
     (let sessionId' = query_of ev ''sessionId'' in
      if falsy_str sessionId' then
        (\<lparr>statusCode = 400, headers = corsHeaders,
          body = error_json ''Session ID is required''\<rparr>, [])
      else
        let rows = select_by_session db sessionId' in
        (\<lparr>statusCode = 200, headers = corsHeaders,
          body = Json (JObj [(''success'', JBool True),
                             (''reviews'', JArr (map public_review rows))])\<rparr>,
         [(''SELECT * FROM reviews WHERE session_id = $1 ORDER BY created_at DESC'',
           [sessionId'])]))"

definition getReviews :: "store \<Rightarrow> event \<Rightarrow> response" where
  "getReviews db ev = fst (getReviews_run db ev)"

definition missing_fields :: string where
  "missing_fields = ''Missing required fields: audioId, title, rating, sessionId''"

definition submit_ok :: "int \<Rightarrow> payload" where
  "submit_ok i =
     Json (JObj [(''success'', JBool True), (''id'', JInt i),
                 (''message'', JStr ''Review submitted successfully'')])"

text \<open>
  The client address of the function adapter (part\_000 lines 144 to 147):
  \<^verbatim>\<open>event.headers["x-forwarded-for"] || event.headers["x-real-ip"] || "unknown"\<close>.
\<close>

definition clientIp :: "event \<Rightarrow> string option" where
  "clientIp ev =
     js_or (js_or (event_headers ev ''x-forwarded-for'') (event_headers ev ''x-real-ip''))
           (Some ''unknown'')"

definition submitReview :: "env \<Rightarrow> store \<Rightarrow> event \<Rightarrow> response \<times> store" where
  "submitReview e db ev =
     (case event_body ev of
        None \<Rightarrow>
          (\<lparr>statusCode = 500, headers = corsHeaders,
            body = error_json ''Internal server error''\<rparr>, db)
      | Some b \<Rightarrow>
          if falsy_int (audioId b) \<or> falsy_str (title b) \<or> rating b = None
             \<or> falsy_str (sessionId b) then
            (\<lparr>statusCode = 400, headers = corsHeaders, body = error_json missing_fields\<rparr>, db)
          else if js_lt (rating b) 0 \<or> js_gt (rating b) 5 then
            (\<lparr>statusCode = 400, headers = corsHeaders,
              body = error_json ''Rating must be between 0 and 5''\<rparr>, db)
          else
            (case upsert_review e db b (clientIp ev) of
               (None, db') \<Rightarrow>
                 (\<lparr>statusCode = 500, headers = corsHeaders,
                   body = error_json ''Internal server error''\<rparr>, db')
             | (Some i, db') \<Rightarrow>
                 (\<lparr>statusCode = 200, headers = corsHeaders, body = submit_ok i\<rparr>, db')))"

text \<open>
  The object that the admin list builds from a row (part\_000 lines 233 to 246, server.js
  lines 195 to 208).
\<close>

definition admin_review :: "review_row \<Rightarrow> json" where
  "admin_review row =
     JObj [(''id'', JInt (r_id row)),
           (''audioId'', JInt (r_audio_id row)),
           (''title'', JStr (r_title row)),
           (''rating'', JNum (r_rating row)),
           (''timestamp'', (case r_timestamp row of None \<Rightarrow> JNull | Some t \<Rightarrow> JDate t)),
           (''date'', JStr (r_date row)),
           (''time'', JStr (r_time row)),
           (''userAgent'', (case r_user_agent row of None \<Rightarrow> JNull | Some u \<Rightarrow> JStr u)),
           (''sessionId'', JStr (r_session_id row)),
           (''ipAddress'', (case r_ip_address row of None \<Rightarrow> JNull | Some a \<Rightarrow> JStr a)),
           (''createdAt'', JDate (r_created_at row)),
           (''updatedAt'', JDate (r_updated_at row))]"

definition csv_headers :: "string list" where
  "csv_headers =
     [''ID'', ''Audio ID'', ''Title'', ''Rating'', ''Date'', ''Time'', ''Session ID'',
      ''IP Address'', ''Created At'']"

text \<open>
  One record of the export (part\_000 lines 264 to 274, server.js lines 226 to 236), from the
  row that the review object was built from. \<^verbatim>\<open>join\<close> writes a number and a date with
  \<^verbatim>\<open>String\<close> and \<^verbatim>\<open>null\<close> as the empty text.
\<close>

definition csv_line :: "env \<Rightarrow> review_row \<Rightarrow> string" where
  "csv_line e row =
     join '',''
       [String_int (r_id row),
        String_int (r_audio_id row),
        [CHR 0x22] @ double_quotes (r_title row) @ [CHR 0x22],
        String_decimal2 (r_rating row),
        r_date row,
        r_time row,
        r_session_id row,
        (case r_ip_address row of None \<Rightarrow> '''' | Some a \<Rightarrow> a),
        date_toString e (r_created_at row)]"

definition csvContent :: "env \<Rightarrow> review_row list \<Rightarrow> string" where
  "csvContent e rows = join [CHR 0x0A] (join '','' csv_headers # map (csv_line e) rows)"

text \<open>
  \<^verbatim>\<open>attachment; filename="reviews-${new Date().toISOString().split("T")[0]}.csv"\<close>
\<close>

definition content_disposition :: "env \<Rightarrow> string" where
  "content_disposition e =
     ''attachment; filename='' @ [CHR 0x22] @ ''reviews-'' @
     takeWhile (\<lambda>c. c \<noteq> CHR ''T'') (toISOString e (new_Date e)) @ ''.csv'' @ [CHR 0x22]"

text \<open>
  The JSON answer of the admin list (part\_000 lines 293 to 302, server.js lines 249 to 258).
  The driver hands the count over as a decimal text, and \<^verbatim>\<open>parseInt\<close> reads it back:
  a table holds fewer than 2^41 rows, and a double holds such a number exactly.
\<close>

definition page_json :: "(review_row \<times> nat) list \<Rightarrow> qval \<Rightarrow> qval \<Rightarrow> json" where
  "page_json rows limit offset =
     JObj [(''success'', JBool True),
           (''reviews'', JArr (map (\<lambda>(row, total_count). admin_review row) rows)),
           (''totalCount'',
              (if length rows > 0
               then (case rows of (row, total_count) # _ \<Rightarrow> JInt (int total_count) | [] \<Rightarrow> JNull)
               else JInt 0)),
           (''pagination'',
              JObj [(''limit'', json_number (parseInt limit)),
                    (''offset'', json_number (parseInt offset))])]"

definition getAllReviews :: "env \<Rightarrow> store \<Rightarrow> event \<Rightarrow> response" where
  "getAllReviews e db ev =
     (let limit = (case query_of ev ''limit'' of None \<Rightarrow> QNum 1000 | Some s \<Rightarrow> QStr s);
          offset = (case query_of ev ''offset'' of None \<Rightarrow> QNum 0 | Some s \<Rightarrow> QStr s);
          format = (case query_of ev ''format'' of None \<Rightarrow> ''json'' | Some s \<Rightarrow> s)
      in case select_page db (parseInt limit) (parseInt offset) of
           None \<Rightarrow>
             \<lparr>statusCode = 500, headers = corsHeaders,
              body = error_json ''Internal server error''\<rparr>
         | Some rows \<Rightarrow>
             if format = ''csv'' then
               \<lparr>statusCode = 200,
                headers = corsHeaders @
                  [(''Content-Type'', ''text/csv''),
                   (''Content-Disposition'', content_disposition e)],
                body = Text (csvContent e (map fst rows))\<rparr>
             else
               \<lparr>statusCode = 200, headers = corsHeaders,
                body = Json (page_json rows limit offset)\<rparr>)"

text \<open>
  The JSON answer of the analytics (part\_000 lines 352 to 371, server.js lines 300 to 319).
  The driver hands a \<^verbatim>\<open>NUMERIC\<close> and a \<^verbatim>\<open>BIGINT\<close> over as texts; the rows of the rating
  distribution go out as they come. \<^verbatim>\<open>parseFloat\<close> reads the text of an average as the
  nearest double. The database writes an average with at least sixteen significant digits,
  and exactly when it has no more, as an average on half a cent; the model takes the double
  nearest to the average itself.
\<close>

definition analytics_json :: "store \<Rightarrow> json" where
  "analytics_json db =
     (let analytics = select_analytics db;
          ratingDistribution = select_rating_distribution db;
          audioStats = select_audio_stats db
      in JObj [(''success'', JBool True),
               (''analytics'',
                  JObj [(''totalReviews'', JInt (int (total_reviews analytics))),
                        (''averageRating'',
                           JStr (toFixed2 (to_double (case average_rating analytics of
                                                        None \<Rightarrow> 0 | Some q \<Rightarrow> q)))),
                        (''uniqueSessions'', JInt (int (unique_sessions analytics))),
                        (''reviewedAudios'', JInt (int (reviewed_audios analytics))),
                        (''firstReview'',
                           (case first_review analytics of None \<Rightarrow> JNull | Some t \<Rightarrow> JDate t)),
                        (''latestReview'',
                           (case latest_review analytics of None \<Rightarrow> JNull | Some t \<Rightarrow> JDate t)),
                        (''ratingDistribution'',
                           JArr (map (\<lambda>(k, n).
                                   JObj [(''rating_floor'', JStr (String_int k)),
                                         (''count'', JStr (String_int (int n)))])
                                 ratingDistribution)),
                        (''audioStats'',
                           JArr (map (\<lambda>row.
                                   JObj [(''audioId'', JInt (s_audio_id row)),
                                         (''title'', JStr (s_title row)),
                                         (''reviewCount'', JInt (int (s_review_count row))),
                                         (''averageRating'',
                                            JStr (case s_average_rating row of
                                                    None \<Rightarrow> ''NaN''
                                                  | Some q \<Rightarrow> toFixed2 (to_double q)))])
                                 audioStats))])])"

definition getAnalytics :: "store \<Rightarrow> event \<Rightarrow> response" where
  "getAnalytics db ev =
     \<lparr>statusCode = 200, headers = corsHeaders, body = Json (analytics_json db)\<rparr>"

text \<open>
  The main handler (part\_000 lines 19 to 58). The handlers it calls catch their own errors,
  so its own \<^verbatim>\<open>catch\<close> is not reached.
\<close>

definition handler :: "env \<Rightarrow> store \<Rightarrow> event \<Rightarrow> response \<times> store" where
  "handler e db ev =
     (if httpMethod ev = ''OPTIONS'' then
        (\<lparr>statusCode = 200, headers = corsHeaders, body = Text ''''\<rparr>, db)
      else
        let path' = replace_first ''/.netlify/functions/api'' '''' (path ev);
            method = httpMethod ev
        in if path' = ''/reviews'' \<and> method = ''GET'' then (getReviews db ev, db)
           else if path' = ''/reviews'' \<and> method = ''POST'' then submitReview e db ev
           else if path' = ''/admin/reviews'' \<and> method = ''GET'' then (getAllReviews e db ev, db)
           else if path' = ''/admin/analytics'' \<and> method = ''GET'' then (getAnalytics db ev, db)
           else (\<lparr>statusCode = 404, headers = corsHeaders, body = error_json ''Not found''\<rparr>, db))"

section \<open>The Express application (server.js)\<close>

text \<open>
  The list callback (server.js lines 60 to 91) with its calls of \<^verbatim>\<open>pool.query\<close>, and
  its answer alone.
\<close>

definition server_getReviews_run :: "store \<Rightarrow> request \<Rightarrow> response \<times> query list" where
  "server_getReviews_run db req =
     (let sessionId' = req_query req ''sessionId'' in
      if falsy_str sessionId' then
        (\<lparr>statusCode = 400, headers = [],
          body = error_json ''Session ID is required''\<rparr>, [])
      else
        let rows = select_by_session db sessionId' in
        (\<lparr>statusCode = 200, headers = [],
          body = Json (JObj [(''success'', JBool True),
                             (''reviews'', JArr (map public_review rows))])\<rparr>,
         [(''SELECT * FROM reviews WHERE session_id = $1 ORDER BY created_at DESC'',
           [sessionId'])]))"

definition server_getReviews :: "store \<Rightarrow> request \<Rightarrow> response" where
  "server_getReviews db req = fst (server_getReviews_run db req)"

text \<open>
  The client address of the Express callback (server.js line 121):
  \<^verbatim>\<open>req.ip || req.connection.remoteAddress\<close>. It is \<open>None\<close> (\<^verbatim>\<open>undefined\<close>, stored as
  \<^verbatim>\<open>NULL\<close>) when neither is populated.
\<close>

definition server_clientIp :: "request \<Rightarrow> string option" where
  "server_clientIp req = js_or (req_ip req) (connection_remoteAddress req)"

definition server_submitReview :: "env \<Rightarrow> store \<Rightarrow> request \<Rightarrow> response \<times> store" where
  "server_submitReview e db req =
     (let b = req_body req in
      if falsy_int (audioId b) \<or> falsy_str (title b) \<or> rating b = None
         \<or> falsy_str (sessionId b) then
        (\<lparr>statusCode = 400, headers = [], body = error_json missing_fields\<rparr>, db)
      else if js_lt (rating b) 0 \<or> js_gt (rating b) 5 then
        (\<lparr>statusCode = 400, headers = [],
          body = error_json ''Rating must be between 0 and 5''\<rparr>, db)
      else
        (case upsert_review e db b (server_clientIp req) of
           (None, db') \<Rightarrow>
             (\<lparr>statusCode = 500, headers = [],
               body = error_json ''Internal server error''\<rparr>, db')
         | (Some i, db') \<Rightarrow>
             (\<lparr>statusCode = 200, headers = [], body = submit_ok i\<rparr>, db')))"

definition server_getAllReviews :: "env \<Rightarrow> store \<Rightarrow> request \<Rightarrow> response" where
  "server_getAllReviews e db req =
     (let limit = (case req_query req ''limit'' of None \<Rightarrow> QNum 1000 | Some s \<Rightarrow> QStr s);
          offset = (case req_query req ''offset'' of None \<Rightarrow> QNum 0 | Some s \<Rightarrow> QStr s);
          format = (case req_query req ''format'' of None \<Rightarrow> ''json'' | Some s \<Rightarrow> s)
      in case select_page db (parseInt limit) (parseInt offset) of
           None \<Rightarrow>
             \<lparr>statusCode = 500, headers = [], body = error_json ''Internal server error''\<rparr>
         | Some rows \<Rightarrow>
             if format = ''csv'' then
               \<lparr>statusCode = 200,
                headers =
                  [(''Content-Type'', ''text/csv''),
                   (''Content-Disposition'', content_disposition e)],
                body = Text (csvContent e (map fst rows))\<rparr>
             else
               \<lparr>statusCode = 200, headers = [], body = Json (page_json rows limit offset)\<rparr>)"

definition server_getAnalytics :: "store \<Rightarrow> request \<Rightarrow> response" where
  "server_getAnalytics db req =
     \<lparr>statusCode = 200, headers = [], body = Json (analytics_json db)\<rparr>"

text \<open>
  The routes of the application in the order of their registration, and the final handler
  (server.js lines 60 to 345). A request gets here once the middlewares \<^verbatim>\<open>cors()\<close>,
  \<^verbatim>\<open>express.json()\<close> and \<^verbatim>\<open>express.static("public")\<close> have passed it on. Whether a route
  takes a request is decided by Express; \<open>takes verb pattern req\<close> is that decision.
\<close>

definition app ::
  "(string \<Rightarrow> string \<Rightarrow> request \<Rightarrow> bool) \<Rightarrow> env \<Rightarrow> store \<Rightarrow> request \<Rightarrow> response \<times> store" where
  "app takes e db req =
     (if takes ''GET'' ''/api/reviews'' req then (server_getReviews db req, db)
      else if takes ''POST'' ''/api/reviews'' req then server_submitReview e db req
      else if takes ''GET'' ''/api/admin/reviews'' req then (server_getAllReviews e db req, db)
      else if takes ''GET'' ''/api/admin/analytics'' req then (server_getAnalytics db req, db)
      else if takes ''GET'' ''/'' req then
        (\<lparr>statusCode = 200, headers = [], body = SendFile ''public/index.html''\<rparr>, db)
      else if takes ''GET'' ''/health'' req then
        (\<lparr>statusCode = 200, headers = [],
          body = Json (JObj [(''status'', JStr ''OK''),
                             (''timestamp'', JStr (toISOString e (new_Date e)))])\<rparr>, db)
      else (\<lparr>statusCode = 404, headers = [], body = error_json ''Not found''\<rparr>, db))"

text \<open>A route takes at least the requests with its verb and exactly its path.\<close>

definition exact_route :: "string \<Rightarrow> string \<Rightarrow> request \<Rightarrow> bool" where
  "exact_route verb pattern req \<longleftrightarrow> req_method req = verb \<and> req_path req = pattern"

section \<open>Sample inputs\<close>

text \<open>
  An environment, a submit request for each adapter and a resubmission of the same pair
  with another title and rating, used where a property is run on a concrete input.
\<close>

definition sample_env :: env where
  "sample_env =
     \<lparr>now = 1000, nextval = 1,
      timestamptz_in = (\<lambda>s. if s = ''2024-05-01T10:00:00.000Z'' then Some 900 else None),
      inet_in = (\<lambda>s. if s = ''203.0.113.7'' \<or> s = ''10.0.0.1'' then Some s else None),
      new_Date = 1001,
      toISOString = (\<lambda>t. ''2024-05-01T10:00:01.000Z''),
      date_toString = (\<lambda>t. ''Wed May 01 2024 10:00:01 GMT+0000 (Coordinated Universal Time)'')\<rparr>"

definition sample_body :: review_body where
  "sample_body =
     \<lparr>audioId = Some 1, title = Some ''Track A'', rating = Some (9 / 2),
      timestamp = Some ''2024-05-01T10:00:00.000Z'', date = Some ''5/1/2024'',
      time = Some ''10:00:00 AM'', userAgent = None, sessionId = Some ''s1''\<rparr>"

definition sample_body2 :: review_body where
  "sample_body2 = sample_body\<lparr>title := Some ''Track A (live)'', rating := Some 3\<rparr>"

definition sample_event :: event where
  "sample_event =
     \<lparr>httpMethod = ''POST'', path = ''/.netlify/functions/api/reviews'',
      event_headers = [''x-forwarded-for'' \<mapsto> ''203.0.113.7''],
      queryStringParameters = None, event_body = Some sample_body\<rparr>"

definition sample_request :: request where
  "sample_request =
     \<lparr>req_method = ''POST'', req_path = ''/api/reviews'',
      req_headers = [''x-forwarded-for'' \<mapsto> ''203.0.113.7''],
      req_query = Map.empty, req_body = sample_body,
      req_ip = Some ''10.0.0.1'', connection_remoteAddress = Some ''10.0.0.1''\<rparr>"

definition sample_env2 :: env where
  "sample_env2 = sample_env\<lparr>now := 2000, nextval := 2\<rparr>"

definition sample_event2 :: event where
  "sample_event2 = sample_event\<lparr>event_body := Some sample_body2\<rparr>"

definition sample_request2 :: request where
  "sample_request2 = sample_request\<lparr>req_body := sample_body2\<rparr>"

text \<open>
  A session id of 101 characters, the last a space, and the sample requests with it; the
  sample event without a header that names an address.
\<close>

definition long_session_id :: string where
  "long_session_id = replicate 100 (CHR ''a'') @ '' ''"

definition long_event :: event where
  "long_event = sample_event\<lparr>event_body := Some (sample_body\<lparr>sessionId := Some long_session_id\<rparr>)\<rparr>"

definition long_request :: request where
  "long_request = sample_request\<lparr>req_body := sample_body\<lparr>sessionId := Some long_session_id\<rparr>\<rparr>"

definition no_address_event :: event where
  "no_address_event = sample_event\<lparr>event_headers := Map.empty\<rparr>"

text \<open>
  Three stored reviews, of two sessions, and requests for the list, the admin list and the
  health route.
\<close>

definition quoted_row :: review_row where
  \<open>quoted_row =
     \<lparr>r_id = 7, r_audio_id = 3, r_title = ''He said "hi"'', r_rating = 9 / 2,
      r_timestamp = None, r_date = ''5/1/2024'', r_time = ''10:00:00 AM'',
      r_user_agent = None, r_session_id = ''s1'', r_ip_address = None,
      r_created_at = 1000, r_updated_at = 1000\<rparr>\<close>

definition sample_store :: store where
  "sample_store =
     [quoted_row,
      quoted_row\<lparr>r_id := 8, r_audio_id := 4, r_title := ''Track B'', r_rating := 3,
                 r_session_id := ''s2'', r_created_at := 1500, r_updated_at := 1500\<rparr>,
      quoted_row\<lparr>r_id := 9, r_audio_id := 5, r_title := ''Track C'', r_rating := 5,
                 r_ip_address := Some ''10.0.0.1'', r_created_at := 2000, r_updated_at := 2500\<rparr>]"

definition list_event :: "string \<Rightarrow> event" where
  "list_event sid =
     \<lparr>httpMethod = ''GET'', path = ''/.netlify/functions/api/reviews'',
      event_headers = Map.empty, queryStringParameters = Some [''sessionId'' \<mapsto> sid],
      event_body = None\<rparr>"

definition list_request :: "string \<Rightarrow> request" where
  "list_request sid =
     \<lparr>req_method = ''GET'', req_path = ''/api/reviews'', req_headers = Map.empty,
      req_query = [''sessionId'' \<mapsto> sid], req_body = sample_body,
      req_ip = Some ''10.0.0.1'', connection_remoteAddress = Some ''10.0.0.1''\<rparr>"

definition admin_event :: "(string \<rightharpoonup> string) option \<Rightarrow> event" where
  "admin_event q =
     \<lparr>httpMethod = ''GET'', path = ''/.netlify/functions/api/admin/reviews'',
      event_headers = Map.empty, queryStringParameters = q, event_body = None\<rparr>"

definition admin_request :: "(string \<rightharpoonup> string) \<Rightarrow> request" where
  "admin_request q =
     \<lparr>req_method = ''GET'', req_path = ''/api/admin/reviews'', req_headers = Map.empty,
      req_query = q, req_body = sample_body,
      req_ip = Some ''10.0.0.1'', connection_remoteAddress = Some ''10.0.0.1''\<rparr>"

definition health_request :: request where
  "health_request =
     \<lparr>req_method = ''GET'', req_path = ''/health'', req_headers = Map.empty,
      req_query = Map.empty, req_body = sample_body,
      req_ip = Some ''10.0.0.1'', connection_remoteAddress = Some ''10.0.0.1''\<rparr>"

section \<open>The specification's wording\<close>

text \<open>
  The condition for status 400 as section 4.1 of the specification words it: a required
  field is missing, or the rating is out of [0, 5].
\<close>

definition spec_missing_or_out_of_range :: "review_body \<Rightarrow> bool" where
  "spec_missing_or_out_of_range b \<longleftrightarrow>
     audioId b = None \<or> title b = None \<or> rating b = None \<or> sessionId b = None
     \<or> (case rating b of None \<Rightarrow> False | Some r \<Rightarrow> r < 0 \<or> 5 < r)"

text \<open>
  The client address as section 4.1 of the specification words it: the first populated
  of the forwarded-for header, the real-ip header and the remote address of the
  connection, else \<open>unknown\<close>.
\<close>

definition spec_client_ip :: "string option \<Rightarrow> string option \<Rightarrow> string option \<Rightarrow> string option" where
  "spec_client_ip forwarded_for real_ip remote_address =
     (if \<not> falsy_str forwarded_for then forwarded_for
      else if \<not> falsy_str real_ip then real_ip
      else if \<not> falsy_str remote_address then remote_address
      else Some ''unknown'')"

text \<open>The first populated of a sequence of values: the first that is there and not empty.\<close>

fun first_populated :: "string option list \<Rightarrow> string option" where
  "first_populated [] = None"
| "first_populated (x # xs) = (if falsy_str x then first_populated xs else x)"

text \<open>The rows of one (session, audio) pair.\<close>

definition pair_rows :: "string \<Rightarrow> int \<Rightarrow> store \<Rightarrow> review_row list" where
  "pair_rows sid a db = filter (same_pair (Some sid) a) db"

text \<open>
  The limit and the offset in effect, as section 4.3 of the specification words them: the
  parameter read as an integer, 1000 and 0 when it is omitted.
\<close>

definition effective_limit :: "(string \<rightharpoonup> string) \<Rightarrow> int option" where
  "effective_limit q = (case q ''limit'' of None \<Rightarrow> Some 1000 | Some s \<Rightarrow> parseInt_str s)"

definition effective_offset :: "(string \<rightharpoonup> string) \<Rightarrow> int option" where
  "effective_offset q = (case q ''offset'' of None \<Rightarrow> Some 0 | Some s \<Rightarrow> parseInt_str s)"

text \<open>Newest first.\<close>

definition newest_first :: "review_row list \<Rightarrow> bool" where
  "newest_first rows \<longleftrightarrow> sorted_wrt (\<lambda>a b. r_created_at a \<ge> r_created_at b) rows"

text \<open>The four logical routes of section 6, as the function adapter sees path and method.\<close>

definition four_routes :: "(string \<times> string) list" where
  "four_routes =
     [(''/reviews'', ''GET''), (''/reviews'', ''POST''),
      (''/admin/reviews'', ''GET''), (''/admin/analytics'', ''GET'')]"

text \<open>
  A submission is valid when it passes the two checks of the handler and the columns of the
  table accept its values, the client address among them.
\<close>

definition valid_submission :: "env \<Rightarrow> review_body \<Rightarrow> string option \<Rightarrow> bool" where
  "valid_submission e b clientIp' \<longleftrightarrow>
     \<not> falsy_int (audioId b) \<and> \<not> falsy_str (title b) \<and> rating b \<noteq> None
     \<and> \<not> falsy_str (sessionId b) \<and> \<not> js_lt (rating b) 0 \<and> \<not> js_gt (rating b) 5
     \<and> column_values e (title b) (rating b) (timestamp b) (date b) (time b) (userAgent b)
           clientIp' \<noteq> None"

section \<open>Properties\<close>

subsection \<open>Lemmas\<close>

lemmas run_defs = submitReview_def server_submitReview_def upsert_review_def select_existing_def
  insert_review_def update_review_def column_values_def not_null_def varchar_def numeric_3_2_def
  check_rating_def int4_def clientIp_def server_clientIp_def js_or_def same_pair_def
  inet_def inet_char_def

lemmas sample_defs = sample_env_def sample_body_def sample_event_def sample_request_def

lemma filter_same_pair_map:
  assumes "\<And>r. r_session_id (f r) = r_session_id r" "\<And>r. r_audio_id (f r) = r_audio_id r"
  shows "filter (same_pair p a) (map f db) = map f (filter (same_pair p a) db)"
  using assms by (induction db) (auto simp: same_pair_def)

lemma upsert_audio:
  assumes "upsert_review e db b ip = (Some i, db')"
  shows "\<exists>a. audioId b = Some a"
  using assms
  by (auto simp: upsert_review_def select_existing_def not_null_def update_review_def insert_review_def split: option.splits if_splits list.splits bind_splits)

lemma upsert_update:
  assumes "audioId b = Some a" "filter (same_pair (sessionId b) a) db \<noteq> []"
    and "upsert_review e db b ip = (Some i, db')"
  shows "map r_id (filter (same_pair (sessionId b) a) db) = i # tl (map r_id (filter (same_pair (sessionId b) a) db))
       \<and> map r_id (filter (same_pair (sessionId b) a) db') = map r_id (filter (same_pair (sessionId b) a) db)
       \<and> length db' = length db"
  using assms
  by (auto simp: upsert_review_def select_existing_def not_null_def update_review_def int4_def filter_same_pair_map o_def
      split: option.splits if_splits list.splits bind_splits)

lemma upsert_insert:
  assumes "audioId b = Some a" "filter (same_pair (sessionId b) a) db = []"
    and "sessionId b = Some sid" "length sid \<le> 100"
    and "upsert_review e db b ip = (Some i, db')"
  shows "map r_id (filter (same_pair (sessionId b) a) db') = [i] \<and> length db' = Suc (length db)"
  using assms
  by (auto simp: upsert_review_def select_existing_def not_null_def insert_review_def int4_def varchar_def same_pair_def
      split: option.splits if_splits list.splits bind_splits)

lemma upsert_then_hit:
  assumes "audioId b = Some a" "sessionId b = Some sid" "length sid \<le> 100"
    and "upsert_review e db b ip = (Some i, db')"
  shows "\<exists>rest. map r_id (filter (same_pair (sessionId b) a) db') = i # rest"
proof (cases "filter (same_pair (sessionId b) a) db = []")
  case True
  from upsert_insert[OF assms(1) True assms(2,3,4)] show ?thesis by simp
next
  case False
  from upsert_update[OF assms(1) False assms(4)] show ?thesis by metis
qed

lemma upsert_count:
  assumes "audioId b = Some a" "sessionId b = Some sid" "length sid \<le> 100"
    and "upsert_review e db b ip = (Some i, db')"
  shows "length (filter (same_pair (sessionId b) a) db') = max 1 (length (filter (same_pair (sessionId b) a) db))"
proof (cases "filter (same_pair (sessionId b) a) db = []")
  case True
  from upsert_insert[OF assms(1) True assms(2,3,4)]
  have "length (map r_id (filter (same_pair (sessionId b) a) db')) = 1" by simp
  with True show ?thesis by simp
next
  case False
  from upsert_update[OF assms(1) False assms(4)]
  have "length (map r_id (filter (same_pair (sessionId b) a) db')) = length (map r_id (filter (same_pair (sessionId b) a) db))"
    by simp
  moreover from False have "1 \<le> length (filter (same_pair (sessionId b) a) db)"
    by (cases "filter (same_pair (sessionId b) a) db") auto
  ultimately show ?thesis by simp
qed

lemma upsert_twice:
  assumes a: "audioId b1 = Some a" "sessionId b1 = Some sid" "length sid \<le> 100"
    and same: "audioId b2 = audioId b1" "sessionId b2 = sessionId b1"
    and u1: "upsert_review e1 db0 b1 ip1 = (Some i1, db1)"
    and u2: "upsert_review e2 db1 b2 ip2 = (Some i2, db2)"
  shows "i2 = i1 \<and> length db2 = length db1
       \<and> length (filter (same_pair (Some sid) a) db2) = max 1 (length (filter (same_pair (Some sid) a) db0))"
proof -
  from upsert_then_hit[OF a u1] obtain js where
    hit: "map r_id (filter (same_pair (sessionId b1) a) db1) = i1 # js" by auto
  then have ne: "filter (same_pair (sessionId b2) a) db1 \<noteq> []" using same by auto
  have a2: "audioId b2 = Some a" using same a by simp
  from upsert_update[OF a2 ne u2] hit same
  have "i2 = i1" and len: "length db2 = length db1"
    and "map r_id (filter (same_pair (sessionId b1) a) db2) = map r_id (filter (same_pair (sessionId b1) a) db1)"
    by auto
  then have "length (filter (same_pair (sessionId b1) a) db2) = length (filter (same_pair (sessionId b1) a) db1)"
    by (metis length_map)
  with upsert_count[OF a u1] \<open>i2 = i1\<close> len a(2) show ?thesis by simp
qed

lemma submitReview_200:
  assumes "submitReview e db ev = (res, db')" "statusCode res = 200"
  shows "\<exists>b i. event_body ev = Some b \<and> upsert_review e db b (clientIp ev) = (Some i, db') \<and> body res = submit_ok i"
  using assms
  by (auto simp: submitReview_def split: option.splits if_splits prod.splits)

lemma server_submitReview_200:
  assumes "server_submitReview e db req = (res, db')" "statusCode res = 200"
  shows "\<exists>i. upsert_review e db (req_body req) (server_clientIp req) = (Some i, db') \<and> body res = submit_ok i"
  using assms
  by (auto simp: server_submitReview_def Let_def split: option.splits if_splits prod.splits)

lemma falsy_int_iff: "falsy_int x \<longleftrightarrow> x = None \<or> x = Some 0"
  by (cases x) auto

lemma falsy_str_iff: "falsy_str x \<longleftrightarrow> x = None \<or> x = Some []"
  by (cases x) auto

lemma submitReview_400:
  assumes "event_body ev = Some b"
  shows "statusCode (fst (submitReview e db ev)) = 400 \<longleftrightarrow>
     falsy_int (audioId b) \<or> falsy_str (title b) \<or> rating b = None \<or> falsy_str (sessionId b)
     \<or> js_lt (rating b) 0 \<or> js_gt (rating b) 5"
  and "statusCode (fst (submitReview e db ev)) = 400 \<Longrightarrow> snd (submitReview e db ev) = db"
  using assms by (auto simp: submitReview_def split: option.splits prod.splits)

lemma server_submitReview_400:
  shows "statusCode (fst (server_submitReview e db req)) = 400 \<longleftrightarrow>
     falsy_int (audioId (req_body req)) \<or> falsy_str (title (req_body req)) \<or> rating (req_body req) = None
     \<or> falsy_str (sessionId (req_body req))
     \<or> js_lt (rating (req_body req)) 0 \<or> js_gt (rating (req_body req)) 5"
  and "statusCode (fst (server_submitReview e db req)) = 400 \<Longrightarrow> snd (server_submitReview e db req) = db"
  by (auto simp: server_submitReview_def Let_def split: option.splits prod.splits)

lemma rejects_iff:
  "falsy_int (audioId b) \<or> falsy_str (title b) \<or> rating b = None \<or> falsy_str (sessionId b)
     \<or> js_lt (rating b) 0 \<or> js_gt (rating b) 5 \<longleftrightarrow>
   audioId b = None \<or> audioId b = Some 0 \<or> title b = None \<or> title b = Some ''''
     \<or> rating b = None \<or> sessionId b = None \<or> sessionId b = Some ''''
     \<or> (\<exists>r. rating b = Some r \<and> (r < 0 \<or> 5 < r))"
  by (cases "rating b") (auto simp: falsy_int_iff falsy_str_iff)

lemma column_values_ip:
  "column_values e t r ts d tm ua ip = Some v \<Longrightarrow> nullable (inet e) ip = Some (v_ip_address v)"
  by (auto simp: column_values_def split: bind_splits)

lemma upsert_stores_ip:
  assumes "upsert_review e db b ip = (Some i, db')"
  shows "\<exists>r. r \<in> set db' \<and> r_id r = i \<and> nullable (inet e) ip = Some (r_ip_address r)"
proof -
  from upsert_audio[OF assms] obtain a where a: "audioId b = Some a" by blast
  show ?thesis
  proof (cases "filter (same_pair (sessionId b) a) db")
    case Nil
    with assms a show ?thesis
      by (fastforce simp: upsert_review_def select_existing_def not_null_def insert_review_def int4_def
          dest!: column_values_ip split: option.splits if_splits list.splits bind_splits)
  next
    case (Cons r0 rs)
    then have "r0 \<in> set (filter (same_pair (sessionId b) a) db)" by simp
    then have r0: "r0 \<in> set db" "same_pair (sessionId b) a r0" by auto
    from assms a Cons obtain v where
      v: "column_values e (title b) (rating b) (timestamp b) (date b) (time b) (userAgent b) ip = Some v"
      and i: "i = r_id r0"
      and db': "db' = map (\<lambda>r. if same_pair (sessionId b) a r
                       then r\<lparr>r_title := v_title v, r_rating := v_rating v,
                              r_timestamp := v_timestamp v, r_date := v_date v,
                              r_time := v_time v, r_user_agent := v_user_agent v,
                              r_ip_address := v_ip_address v, r_updated_at := now e\<rparr>
                       else r) db"
      by (auto simp: upsert_review_def select_existing_def not_null_def update_review_def int4_def
          split: option.splits if_splits list.splits bind_splits)
    let ?r = "r0\<lparr>r_title := v_title v, r_rating := v_rating v,
                              r_timestamp := v_timestamp v, r_date := v_date v,
                              r_time := v_time v, r_user_agent := v_user_agent v,
                              r_ip_address := v_ip_address v, r_updated_at := now e\<rparr>"
    from r0 db' have "?r \<in> set db'" by (auto simp: image_iff intro!: bexI[of _ r0])
    moreover have "r_id ?r = i" using i by simp
    moreover have "nullable (inet e) ip = Some (r_ip_address ?r)"
      using column_values_ip[OF v] by simp
    ultimately show ?thesis by blast
  qed
qed

lemma upsert_int4:
  assumes "upsert_review e db b ip = (Some i, db')" "audioId b = Some a"
  shows "int4 a = Some a"
  using assms
  by (auto simp: upsert_review_def select_existing_def int4_def split: option.splits if_splits bind_splits)

lemma upsert_update_accepts:
  assumes "audioId b = Some a" "int4 a = Some a"
    and "filter (same_pair (sessionId b) a) db \<noteq> []"
    and "column_values e (title b) (rating b) (timestamp b) (date b) (time b) (userAgent b) ip \<noteq> None"
  shows "\<exists>i db'. upsert_review e db b ip = (Some i, db')"
proof -
  from assms(4) obtain v where
    v: "column_values e (title b) (rating b) (timestamp b) (date b) (time b) (userAgent b) ip = Some v"
    by auto
  from assms(3) obtain r rs where f: "filter (same_pair (sessionId b) a) db = r # rs"
    by (cases "filter (same_pair (sessionId b) a) db") auto
  show ?thesis
    by (simp add: upsert_review_def select_existing_def update_review_def not_null_def assms(1,2) v f)
qed

lemma valid_submission_second:
  assumes a: "audioId b1 = Some a" "sessionId b1 = Some sid" "length sid \<le> 100"
    and same: "audioId b2 = audioId b1" "sessionId b2 = sessionId b1"
    and u1: "upsert_review e1 db0 b1 ip1 = (Some i1, db1)"
    and v: "column_values e2 (title b2) (rating b2) (timestamp b2) (date b2) (time b2) (userAgent b2) ip2 \<noteq> None"
  shows "\<exists>i2 db2. upsert_review e2 db1 b2 ip2 = (Some i2, db2)"
proof -
  from upsert_then_hit[OF a u1] obtain js where
    "map r_id (filter (same_pair (sessionId b1) a) db1) = i1 # js" by auto
  then have ne: "filter (same_pair (sessionId b2) a) db1 \<noteq> []" using same by auto
  have a2: "audioId b2 = Some a" using same a by simp
  from upsert_update_accepts[OF a2 upsert_int4[OF u1 a(1)] ne v] show ?thesis .
qed

lemma submitReview_valid:
  assumes "event_body ev = Some b" "valid_submission e b (clientIp ev)"
  shows "submitReview e db ev =
     (case upsert_review e db b (clientIp ev) of
               (None, db') \<Rightarrow>
                 (\<lparr>statusCode = 500, headers = corsHeaders,
                   body = error_json ''Internal server error''\<rparr>, db')
             | (Some i, db') \<Rightarrow>
                 (\<lparr>statusCode = 200, headers = corsHeaders, body = submit_ok i\<rparr>, db'))"
  using assms by (auto simp: submitReview_def valid_submission_def)

lemma server_submitReview_valid:
  assumes "valid_submission e (req_body req) (server_clientIp req)"
  shows "server_submitReview e db req =
     (case upsert_review e db (req_body req) (server_clientIp req) of
               (None, db') \<Rightarrow>
                 (\<lparr>statusCode = 500, headers = [],
                   body = error_json ''Internal server error''\<rparr>, db')
             | (Some i, db') \<Rightarrow>
                 (\<lparr>statusCode = 200, headers = [], body = submit_ok i\<rparr>, db'))"
  using assms by (auto simp: server_submitReview_def valid_submission_def Let_def)

lemma upsert_update_content:
  assumes "audioId b = Some a" "filter (same_pair (sessionId b) a) db \<noteq> []"
    and "upsert_review e db b ip = (Some i, db')"
  shows "\<exists>v. column_values e (title b) (rating b) (timestamp b) (date b) (time b) (userAgent b) ip = Some v
           \<and> db' = map (\<lambda>r. if same_pair (sessionId b) a r
                       then r\<lparr>r_title := v_title v, r_rating := v_rating v,
                              r_timestamp := v_timestamp v, r_date := v_date v,
                              r_time := v_time v, r_user_agent := v_user_agent v,
                              r_ip_address := v_ip_address v, r_updated_at := now e\<rparr>
                       else r) db"
  using assms
  by (auto simp: upsert_review_def select_existing_def not_null_def update_review_def int4_def
      split: option.splits if_splits list.splits bind_splits)

lemma inet_unknown: "inet e ''unknown'' = None"
  by (simp add: inet_def inet_char_def)

lemma inet_empty: "inet e '''' = None"
  by (simp add: inet_def)

lemma clientIp_cases:
  "clientIp ev =
     (case first_populated [event_headers ev ''x-forwarded-for'', event_headers ev ''x-real-ip''] of
        None \<Rightarrow> Some ''unknown'' | Some h \<Rightarrow> Some h)"
  by (auto simp: clientIp_def js_or_def falsy_str_iff split: option.splits)

lemma server_clientIp_cases:
  "server_clientIp req =
     (case first_populated [req_ip req, connection_remoteAddress req] of
        None \<Rightarrow> connection_remoteAddress req | Some h \<Rightarrow> Some h)"
  by (auto simp: server_clientIp_def js_or_def falsy_str_iff split: option.splits)

lemma column_values_unknown:
  "column_values e t r ts d tm ua (Some ''unknown'') = None"
  by (auto simp: column_values_def inet_unknown split: bind_splits)

lemma upsert_unknown: "upsert_review e db b (Some ''unknown'') = (None, db)"
  by (auto simp: upsert_review_def update_review_def insert_review_def column_values_unknown
      split: option.splits bind_splits list.splits)

lemma order_desc_newest_first: "newest_first (order_by_created_at_desc rows)"
proof -
  have "sorted (map (\<lambda>r. - int (r_created_at r)) (sort_key (\<lambda>r. - int (r_created_at r)) rows))"
    by (rule sorted_sort_key)
  then have "sorted_wrt (\<lambda>a b. - int (r_created_at a) \<le> - int (r_created_at b))
      (sort_key (\<lambda>r. - int (r_created_at r)) rows)"
    by (simp add: sorted_map)
  then show ?thesis
    by (simp add: newest_first_def order_by_created_at_desc_def)
qed

lemma order_desc_mset: "mset (order_by_created_at_desc rows) = mset rows"
  by (simp add: order_by_created_at_desc_def)

lemma order_desc_Nil: "order_by_created_at_desc [] = []"
  by (simp add: order_by_created_at_desc_def)

lemma select_by_session_Some:
  "select_by_session db (Some sid) = order_by_created_at_desc (filter (\<lambda>r. r_session_id r = sid) db)"
  by (simp add: select_by_session_def)

lemma select_page_Some:
  assumes "row_count_param x = Some l" "row_count_param y = Some k"
  shows "select_page db x y =
         Some (map (\<lambda>r. (r, length db)) (take l (drop k (order_by_created_at_desc db))))"
  using assms by (simp add: select_page_def)




lemma parse_limit:
  "parseInt (case q ''limit'' of None \<Rightarrow> QNum 1000 | Some s \<Rightarrow> QStr s) = effective_limit q"
  by (simp add: effective_limit_def split: option.splits)

lemma parse_offset:
  "parseInt (case q ''offset'' of None \<Rightarrow> QNum 0 | Some s \<Rightarrow> QStr s) = effective_offset q"
  by (simp add: effective_offset_def split: option.splits)



lemma getAllReviews_csv:
  assumes "row_count_param (effective_limit (query_of ev)) = Some l"
    and "row_count_param (effective_offset (query_of ev)) = Some k"
    and "query_of ev ''format'' = Some ''csv''"
  shows "getAllReviews e db ev =
     \<lparr>statusCode = 200,
      headers = corsHeaders @ [(''Content-Type'', ''text/csv''),
                               (''Content-Disposition'', content_disposition e)],
      body = Text (csvContent e (take l (drop k (order_by_created_at_desc db))))\<rparr>"
  unfolding getAllReviews_def Let_def parse_limit parse_offset
      select_page_Some[OF assms(1,2)]
  by (simp add: assms(3) o_def)

lemma server_getAllReviews_csv:
  assumes "row_count_param (effective_limit (req_query req)) = Some l"
    and "row_count_param (effective_offset (req_query req)) = Some k"
    and "req_query req ''format'' = Some ''csv''"
  shows "server_getAllReviews e db req =
     \<lparr>statusCode = 200,
      headers = [(''Content-Type'', ''text/csv''),
                 (''Content-Disposition'', content_disposition e)],
      body = Text (csvContent e (take l (drop k (order_by_created_at_desc db))))\<rparr>"
  unfolding server_getAllReviews_def Let_def parse_limit parse_offset
      select_page_Some[OF assms(1,2)]
  by (simp add: assms(3) o_def)



lemma to_double_0: "to_double 0 = 0"
  by (simp add: to_double_def)

lemma toFixed2_0: "toFixed2 0 = ''0.00''"
  by code_simp

lemma double_quotes_Cons:
  "double_quotes (c # s) = (if c = CHR 0x22 then [CHR 0x22, CHR 0x22] else [c]) @ double_quotes s"
  by (simp add: double_quotes_def)

lemma csv_line_eq:
  "csv_line e row =
     String_int (r_id row) @ '','' @ String_int (r_audio_id row) @ '','' @
     [CHR 0x22] @ double_quotes (r_title row) @ [CHR 0x22] @ '','' @
     String_decimal2 (r_rating row) @ '','' @ r_date row @ '','' @ r_time row @ '','' @
     r_session_id row @ '','' @ (case r_ip_address row of None \<Rightarrow> '''' | Some a \<Rightarrow> a) @ '','' @
     date_toString e (r_created_at row)"
  by (simp add: csv_line_def)

lemma csvContent_eq:
  "csvContent e rows =
     join [CHR 0x0A] (''ID,Audio ID,Title,Rating,Date,Time,Session ID,IP Address,Created At''
                      # map (csv_line e) rows)"
  by (simp add: csvContent_def csv_headers_def)

lemma filter_key_singleton:
  assumes "distinct (map f xs)" "k \<in> set xs"
  shows "filter (\<lambda>x. f k = f x) xs = [k]"
  using assms
proof (induction xs)
  case Nil
  then show ?case by simp
next
  case (Cons x xs)
  show ?case
  proof (cases "k = x")
    case True
    have "filter (\<lambda>y. f x = f y) xs = []"
      using Cons.prems(1) by (auto simp: filter_empty_conv)
    with True show ?thesis by simp
  next
    case False
    with Cons.prems have k: "k \<in> set xs" and d: "distinct (map f xs)" by auto
    from Cons.prems(1) k have "f k \<noteq> f x" by (auto simp: image_iff)
    with Cons.IH[OF d k] show ?thesis by simp
  qed
qed

lemma newest_first_unique:
  assumes "mset ys = mset db" "newest_first ys" "distinct (map r_created_at db)"
  shows "ys = order_by_created_at_desc db"
proof -
  let ?f = "\<lambda>r. - int (r_created_at r)"
  have s: "sorted (map ?f ys)"
    using assms(2) by (simp add: newest_first_def sorted_map)
  have "mset (map r_created_at ys) = mset (map r_created_at db)"
    using assms(1) by (metis mset_map)
  then have dy: "distinct (map r_created_at ys)"
    using assms(3) by (metis mset_eq_imp_distinct_iff)
  have set_eq: "set ys = set db" using assms(1) by (rule mset_eq_setD)
  have f: "filter (\<lambda>x. ?f k = ?f x) ys = filter (\<lambda>x. ?f k = ?f x) db" if "k \<in> set ys" for k
  proof -
    from that set_eq have kd: "k \<in> set db" by simp
    have "filter (\<lambda>x. r_created_at k = r_created_at x) ys = [k]"
      by (rule filter_key_singleton[OF dy that])
    moreover have "filter (\<lambda>x. r_created_at k = r_created_at x) db = [k]"
      by (rule filter_key_singleton[OF assms(3) kd])
    ultimately show ?thesis by simp
  qed
  from properties_for_sort_key[OF assms(1) f s] show ?thesis
    by (simp add: order_by_created_at_desc_def)
qed





subsection \<open>C1: Submitting twice\<close>

text \<open>
  What holds of a resubmission. A submission answered with status 200, then a valid
  submission for the same (sessionId, audioId) in the store that the first left, the session
  id being one that fits its column (\<^verbatim>\<open>VARCHAR(100)\<close>): the second is answered with status
  200 and the id of the first, the table has as many rows after it as before it, and the
  pair has as many rows as it had before the first submission, but at least one. The second
  submission writes its values, as the columns read them, and the time of the statement to
  the rows of the pair and leaves every other row as it was. The statements of one request
  run one after the other, with no other request in between. Both adapters run the same
  statements.
\<close>

lemma resubmit_updates_same_row:
  assumes "audioId b1 = Some a" "sessionId b1 = Some sid" "length sid \<le> 100"
    and "audioId b2 = Some a" "sessionId b2 = Some sid"
    and "upsert_review e1 db0 b1 ip1 = (Some i1, db1)"
    and "column_values e2 (title b2) (rating b2) (timestamp b2) (date b2) (time b2) (userAgent b2) ip2 = Some v"
  shows "upsert_review e2 db1 b2 ip2 =
           (Some i1, map (\<lambda>r. if same_pair (Some sid) a r
                       then r\<lparr>r_title := v_title v, r_rating := v_rating v,
                              r_timestamp := v_timestamp v, r_date := v_date v,
                              r_time := v_time v, r_user_agent := v_user_agent v,
                              r_ip_address := v_ip_address v, r_updated_at := now e2\<rparr>
                       else r) db1)
         \<and> length (pair_rows sid a db1) = max 1 (length (pair_rows sid a db0))"
proof -
  have p: "audioId b1 = Some a" "sessionId b1 = Some sid" "length sid \<le> 100"
    "audioId b2 = audioId b1" "sessionId b2 = sessionId b1"
    using assms by simp_all
  have v: "column_values e2 (title b2) (rating b2) (timestamp b2) (date b2) (time b2) (userAgent b2) ip2 \<noteq> None"
    using assms(7) by simp
  from valid_submission_second[OF p assms(6) v] obtain i2 db2 where
    u2: "upsert_review e2 db1 b2 ip2 = (Some i2, db2)" by blast
  from upsert_twice[OF p assms(6) u2] have i: "i2 = i1" by simp
  from upsert_then_hit[OF p(1,2,3) assms(6)] obtain js where
    "map r_id (filter (same_pair (sessionId b1) a) db1) = i1 # js" by auto
  then have ne: "filter (same_pair (sessionId b2) a) db1 \<noteq> []" using p by auto
  from upsert_update_content[OF assms(4) ne u2] assms(5,7)
  have "db2 = map (\<lambda>r. if same_pair (Some sid) a r
                       then r\<lparr>r_title := v_title v, r_rating := v_rating v,
                              r_timestamp := v_timestamp v, r_date := v_date v,
                              r_time := v_time v, r_user_agent := v_user_agent v,
                              r_ip_address := v_ip_address v, r_updated_at := now e2\<rparr>
                       else r) db1"
    by auto
  moreover from upsert_count[OF p(1,2,3) assms(6)] p(2)
  have "length (pair_rows sid a db1) = max 1 (length (pair_rows sid a db0))"
    by (simp add: pair_rows_def)
  ultimately show ?thesis using u2 i by simp
qed

text \<open>
  The same at the two handlers: the answer to the resubmission is status 200 with the id that
  the first answer gave, and the store after it is the store before it with the rows of the
  pair rewritten.
\<close>

lemma resubmit_function_adapter:
  assumes "event_body ev1 = Some b1" "event_body ev2 = Some b2"
    and "audioId b1 = Some a" "sessionId b1 = Some sid" "length sid \<le> 100"
    and "audioId b2 = Some a" "sessionId b2 = Some sid"
    and "submitReview e1 db0 ev1 = (res1, db1)" "statusCode res1 = 200"
    and "valid_submission e2 b2 (clientIp ev2)"
  shows "\<exists>v i. column_values e2 (title b2) (rating b2) (timestamp b2) (date b2) (time b2)
                 (userAgent b2) (clientIp ev2) = Some v
           \<and> body res1 = submit_ok i
           \<and> submitReview e2 db1 ev2 =
               (\<lparr>statusCode = 200, headers = corsHeaders, body = submit_ok i\<rparr>,
                map (\<lambda>r. if same_pair (Some sid) a r
                       then r\<lparr>r_title := v_title v, r_rating := v_rating v,
                              r_timestamp := v_timestamp v, r_date := v_date v,
                              r_time := v_time v, r_user_agent := v_user_agent v,
                              r_ip_address := v_ip_address v, r_updated_at := now e2\<rparr>
                       else r) db1)"
proof -
  from assms(10) obtain v where
    v: "column_values e2 (title b2) (rating b2) (timestamp b2) (date b2) (time b2)
          (userAgent b2) (clientIp ev2) = Some v"
    by (auto simp: valid_submission_def)
  from submitReview_200[OF assms(8,9)] assms(1) obtain i where
    u: "upsert_review e1 db0 b1 (clientIp ev1) = (Some i, db1)" and b: "body res1 = submit_ok i"
    by auto
  from resubmit_updates_same_row[OF assms(3,4,5,6,7) u v] submitReview_valid[OF assms(2,10), of db1]
  have "submitReview e2 db1 ev2 =
               (\<lparr>statusCode = 200, headers = corsHeaders, body = submit_ok i\<rparr>,
                map (\<lambda>r. if same_pair (Some sid) a r
                       then r\<lparr>r_title := v_title v, r_rating := v_rating v,
                              r_timestamp := v_timestamp v, r_date := v_date v,
                              r_time := v_time v, r_user_agent := v_user_agent v,
                              r_ip_address := v_ip_address v, r_updated_at := now e2\<rparr>
                       else r) db1)"
    by simp
  with v b show ?thesis by blast
qed

lemma resubmit_server:
  assumes "audioId (req_body req1) = Some a" "sessionId (req_body req1) = Some sid" "length sid \<le> 100"
    and "audioId (req_body req2) = Some a" "sessionId (req_body req2) = Some sid"
    and "server_submitReview e1 db0 req1 = (res1, db1)" "statusCode res1 = 200"
    and "valid_submission e2 (req_body req2) (server_clientIp req2)"
  shows "\<exists>v i. column_values e2 (title (req_body req2)) (rating (req_body req2))
                 (timestamp (req_body req2)) (date (req_body req2)) (time (req_body req2))
                 (userAgent (req_body req2)) (server_clientIp req2) = Some v
           \<and> body res1 = submit_ok i
           \<and> server_submitReview e2 db1 req2 =
               (\<lparr>statusCode = 200, headers = [], body = submit_ok i\<rparr>,
                map (\<lambda>r. if same_pair (Some sid) a r
                       then r\<lparr>r_title := v_title v, r_rating := v_rating v,
                              r_timestamp := v_timestamp v, r_date := v_date v,
                              r_time := v_time v, r_user_agent := v_user_agent v,
                              r_ip_address := v_ip_address v, r_updated_at := now e2\<rparr>
                       else r) db1)"
proof -
  from assms(8) obtain v where
    v: "column_values e2 (title (req_body req2)) (rating (req_body req2))
                 (timestamp (req_body req2)) (date (req_body req2)) (time (req_body req2))
                 (userAgent (req_body req2)) (server_clientIp req2) = Some v"
    by (auto simp: valid_submission_def)
  from server_submitReview_200[OF assms(6,7)] obtain i where
    u: "upsert_review e1 db0 (req_body req1) (server_clientIp req1) = (Some i, db1)"
    and b: "body res1 = submit_ok i"
    by auto
  from resubmit_updates_same_row[OF assms(1,2,3,4,5) u v] server_submitReview_valid[OF assms(8), of db1]
  have "server_submitReview e2 db1 req2 =
               (\<lparr>statusCode = 200, headers = [], body = submit_ok i\<rparr>,
                map (\<lambda>r. if same_pair (Some sid) a r
                       then r\<lparr>r_title := v_title v, r_rating := v_rating v,
                              r_timestamp := v_timestamp v, r_date := v_date v,
                              r_time := v_time v, r_user_agent := v_user_agent v,
                              r_ip_address := v_ip_address v, r_updated_at := now e2\<rparr>
                       else r) db1)"
    by simp
  with v b show ?thesis by blast
qed

text \<open>
  On the sample: the first submission inserts row 1, the resubmission with another title and
  rating is answered with id 1 and leaves the one row, with the new title and rating and the
  time of the second statement as \<^verbatim>\<open>updated_at\<close>.
\<close>

lemma resubmit_sample:
  "(let (res1, db1) = submitReview sample_env [] sample_event;
        (res2, db2) = submitReview sample_env2 db1 sample_event2
    in body res1 = submit_ok 1 \<and> statusCode res2 = 200 \<and> body res2 = submit_ok 1
       \<and> map r_id db2 = [1] \<and> map r_title db2 = [''Track A (live)'']
       \<and> map r_rating db2 = [3] \<and> map r_created_at db2 = [1000] \<and> map r_updated_at db2 = [2000])
   \<and> (let (res1, db1) = server_submitReview sample_env [] sample_request;
        (res2, db2) = server_submitReview sample_env2 db1 sample_request2
    in body res1 = submit_ok 1 \<and> statusCode res2 = 200 \<and> body res2 = submit_ok 1
       \<and> map r_id db2 = [1] \<and> map r_title db2 = [''Track A (live)'']
       \<and> map r_rating db2 = [3] \<and> map r_created_at db2 = [1000] \<and> map r_updated_at db2 = [2000])"
proof -
  have n: "numeric_3_2 3 = Some 3" "numeric_3_2 (9 / 2) = Some (9 / 2)"
    by code_simp+
  show ?thesis
    by (simp add: submitReview_def server_submitReview_def upsert_review_def select_existing_def
        insert_review_def update_review_def column_values_def not_null_def varchar_def n
        check_rating_def int4_def clientIp_def server_clientIp_def js_or_def same_pair_def
        inet_def inet_char_def sample_defs sample_body2_def sample_env2_def sample_event2_def
        sample_request2_def Let_def)
qed

text \<open>
  C1, at a session id that does not fit its column. The session id has 101 characters, the
  last a space. Both submissions are the same request, pass the checks of the handler and
  are answered with status 200. The \<^verbatim>\<open>INSERT\<close> of the first stores the session id cut to
  its first 100 characters; the \<^verbatim>\<open>SELECT\<close> of the second compares the stored text with
  the full one and finds no row, so the second submission inserts a second row and is
  answered with another id: ids 1 and 2, two rows for one (sessionId, audioId). Both
  adapters.
\<close>

theorem C1_long_sessionId_second_row:
  "length long_session_id = 101
   \<and> (let (res1, db1) = submitReview sample_env [] long_event;
           (res2, db2) = submitReview sample_env2 db1 long_event
       in statusCode res1 = 200 \<and> body res1 = submit_ok 1
          \<and> statusCode res2 = 200 \<and> body res2 = submit_ok 2
          \<and> map r_id db2 = [1, 2]
          \<and> map r_session_id db2 = [replicate 100 (CHR ''a''), replicate 100 (CHR ''a'')]
          \<and> map r_audio_id db2 = [1, 1])
   \<and> (let (res1, db1) = server_submitReview sample_env [] long_request;
           (res2, db2) = server_submitReview sample_env2 db1 long_request
       in statusCode res1 = 200 \<and> body res1 = submit_ok 1
          \<and> statusCode res2 = 200 \<and> body res2 = submit_ok 2
          \<and> map r_id db2 = [1, 2]
          \<and> map r_session_id db2 = [replicate 100 (CHR ''a''), replicate 100 (CHR ''a'')]
          \<and> map r_audio_id db2 = [1, 1])"
  by (simp add: run_defs sample_defs sample_env2_def long_session_id_def long_event_def
      long_request_def Let_def)

subsection \<open>C2: Rejected submissions\<close>

text \<open>
  C2, as stated, at a body whose \<open>audioId\<close> is the number 0: all four required fields are
  there and the rating 4.5 is within [0, 5], yet the answer is 400.
\<close>

theorem C2_present_zero_audioId_counterexample:
  "\<not> (statusCode (fst (submitReview sample_env []
          (sample_event\<lparr>event_body := Some (sample_body\<lparr>audioId := Some 0\<rparr>)\<rparr>))) = 400
       \<longleftrightarrow> spec_missing_or_out_of_range (sample_body\<lparr>audioId := Some 0\<rparr>))"
  by (simp add: run_defs sample_defs spec_missing_or_out_of_range_def)

text \<open>
  C2, amended. The answer to a submit request is 400 exactly when \<open>audioId\<close> is absent or
  0, \<open>title\<close> or \<open>sessionId\<close> is absent or the empty string, \<open>rating\<close> is absent, or
  the rating is below 0 or above 5; and every answer 400 leaves the store as it was. In
  particular a rating below 0 or above 5 always gets 400 and writes nothing. Both adapters.
\<close>

theorem C2_rejected_iff_falsy_or_out_of_range:
  "(event_body ev = Some b \<longrightarrow>
      (statusCode (fst (submitReview e db ev)) = 400 \<longleftrightarrow>
         audioId b = None \<or> audioId b = Some 0 \<or> title b = None \<or> title b = Some ''''
         \<or> rating b = None \<or> sessionId b = None \<or> sessionId b = Some ''''
         \<or> (\<exists>r. rating b = Some r \<and> (r < 0 \<or> 5 < r)))
      \<and> (statusCode (fst (submitReview e db ev)) = 400 \<longrightarrow> snd (submitReview e db ev) = db))
   \<and> (req_body req = b \<longrightarrow>
      (statusCode (fst (server_submitReview e db req)) = 400 \<longleftrightarrow>
         audioId b = None \<or> audioId b = Some 0 \<or> title b = None \<or> title b = Some ''''
         \<or> rating b = None \<or> sessionId b = None \<or> sessionId b = Some ''''
         \<or> (\<exists>r. rating b = Some r \<and> (r < 0 \<or> 5 < r)))
      \<and> (statusCode (fst (server_submitReview e db req)) = 400 \<longrightarrow> snd (server_submitReview e db req) = db))"
proof -
  have A: "statusCode (fst (submitReview e db ev)) = 400 \<longleftrightarrow>
         audioId b = None \<or> audioId b = Some 0 \<or> title b = None \<or> title b = Some ''''
         \<or> rating b = None \<or> sessionId b = None \<or> sessionId b = Some ''''
         \<or> (\<exists>r. rating b = Some r \<and> (r < 0 \<or> 5 < r))" if "event_body ev = Some b"
    unfolding submitReview_400(1)[OF that] by (rule rejects_iff)
  have B: "statusCode (fst (server_submitReview e db req)) = 400 \<longleftrightarrow>
         audioId b = None \<or> audioId b = Some 0 \<or> title b = None \<or> title b = Some ''''
         \<or> rating b = None \<or> sessionId b = None \<or> sessionId b = Some ''''
         \<or> (\<exists>r. rating b = Some r \<and> (r < 0 \<or> 5 < r))" if "req_body req = b"
    unfolding server_submitReview_400(1) that by (rule rejects_iff)
  have C: "snd (submitReview e db ev) = db"
    if "event_body ev = Some b" "statusCode (fst (submitReview e db ev)) = 400"
    using submitReview_400(2)[OF that] .
  have D: "snd (server_submitReview e db req) = db"
    if "statusCode (fst (server_submitReview e db req)) = 400"
    using server_submitReview_400(2)[OF that] .
  show ?thesis
    apply (intro conjI impI)
    subgoal by (rule A)
    subgoal by (rule C)
    subgoal by (rule B)
    subgoal by (rule D)
    done
qed

text \<open>
  C2 on the sample: a rating of 6 in the function adapter and a rating of -0.01 in the Express
  application are answered with 400 and leave the empty store empty; the sample request
  itself is not answered with 400.
\<close>

theorem C2_rejected_witness:
  "statusCode (fst (submitReview sample_env []
       (sample_event\<lparr>event_body := Some (sample_body\<lparr>rating := Some 6\<rparr>)\<rparr>))) = 400
   \<and> snd (submitReview sample_env []
       (sample_event\<lparr>event_body := Some (sample_body\<lparr>rating := Some 6\<rparr>)\<rparr>)) = []
   \<and> statusCode (fst (server_submitReview sample_env []
       (sample_request\<lparr>req_body := sample_body\<lparr>rating := Some (- 1 / 100)\<rparr>\<rparr>))) = 400
   \<and> snd (server_submitReview sample_env []
       (sample_request\<lparr>req_body := sample_body\<lparr>rating := Some (- 1 / 100)\<rparr>\<rparr>)) = []
   \<and> statusCode (fst (submitReview sample_env [] sample_event)) \<noteq> 400"
  using C2_rejected_iff_falsy_or_out_of_range
      [of "sample_event\<lparr>event_body := Some (sample_body\<lparr>rating := Some 6\<rparr>)\<rparr>"
          "sample_body\<lparr>rating := Some 6\<rparr>" sample_env "[]"
          "sample_request\<lparr>req_body := sample_body\<lparr>rating := Some 6\<rparr>\<rparr>"]
    C2_rejected_iff_falsy_or_out_of_range
      [of "sample_event" "sample_body\<lparr>rating := Some (- 1 / 100)\<rparr>" sample_env "[]"
          "sample_request\<lparr>req_body := sample_body\<lparr>rating := Some (- 1 / 100)\<rparr>\<rparr>"]
    C2_rejected_iff_falsy_or_out_of_range
      [of "sample_event" "sample_body" sample_env "[]" "sample_request"]
  by (simp add: sample_event_def sample_body_def sample_request_def)

subsection \<open>C3: The reviews of a session\<close>

text \<open>
  C3, as stated, at a request whose \<open>sessionId\<close> parameter is there and is the empty string,
  on the empty store: the session has no rows, yet the answer is status 400 and not the
  empty sequence with \<open>success\<close>.
\<close>

theorem C3_empty_sessionId_counterexample:
  "query_of (list_event '''') ''sessionId'' = Some ''''
   \<and> statusCode (getReviews [] (list_event '''')) = 400
   \<and> body (getReviews [] (list_event '''')) \<noteq> Json (JObj [(''success'', JBool True), (''reviews'', JArr [])])
   \<and> req_query (list_request '''') ''sessionId'' = Some ''''
   \<and> statusCode (server_getReviews [] (list_request '''')) = 400
   \<and> body (server_getReviews [] (list_request '''')) \<noteq> Json (JObj [(''success'', JBool True), (''reviews'', JArr [])])"
  by (simp add: getReviews_def getReviews_run_def server_getReviews_def server_getReviews_run_def
      list_event_def list_request_def query_of_def error_json_def)

text \<open>
  C3, amended. For a \<open>sessionId\<close> parameter that is not the empty string, the list
  operation answers with status 200, \<open>success\<close> and the sequence of the stored reviews of
  that session: the same reviews with the same multiplicity, newest first by
  \<^verbatim>\<open>created_at\<close>, each as the object of the nine fields id, audioId, title, rating,
  timestamp, date, time, sessionId, createdAt; the sequence is empty when the session has no
  rows. Both adapters.
\<close>

theorem C3_list_session_reviews:
  "(query_of ev ''sessionId'' = Some sid \<and> sid \<noteq> '''' \<longrightarrow>
      (\<exists>rows. getReviews db ev =
                 \<lparr>statusCode = 200, headers = corsHeaders,
                  body = Json (JObj [(''success'', JBool True),
                                     (''reviews'', JArr (map public_review rows))])\<rparr>
             \<and> mset rows = mset (filter (\<lambda>r. r_session_id r = sid) db)
             \<and> newest_first rows
             \<and> (filter (\<lambda>r. r_session_id r = sid) db = [] \<longrightarrow> rows = [])))
   \<and> (req_query req ''sessionId'' = Some sid \<and> sid \<noteq> '''' \<longrightarrow>
      (\<exists>rows. server_getReviews db req =
                 \<lparr>statusCode = 200, headers = [],
                  body = Json (JObj [(''success'', JBool True),
                                     (''reviews'', JArr (map public_review rows))])\<rparr>
             \<and> mset rows = mset (filter (\<lambda>r. r_session_id r = sid) db)
             \<and> newest_first rows
             \<and> (filter (\<lambda>r. r_session_id r = sid) db = [] \<longrightarrow> rows = [])))
   \<and> public_review row =
        JObj [(''id'', JInt (r_id row)), (''audioId'', JInt (r_audio_id row)),
              (''title'', JStr (r_title row)), (''rating'', JNum (r_rating row)),
              (''timestamp'', (case r_timestamp row of None \<Rightarrow> JNull | Some t \<Rightarrow> JDate t)),
              (''date'', JStr (r_date row)), (''time'', JStr (r_time row)),
              (''sessionId'', JStr (r_session_id row)),
              (''createdAt'', JDate (r_created_at row))]"
proof (intro conjI impI)
  let ?rows = "order_by_created_at_desc (filter (\<lambda>r. r_session_id r = sid) db)"
  have P: "mset ?rows = mset (filter (\<lambda>r. r_session_id r = sid) db) \<and> newest_first ?rows
        \<and> (filter (\<lambda>r. r_session_id r = sid) db = [] \<longrightarrow> ?rows = [])"
    by (simp add: order_desc_mset order_desc_newest_first order_desc_Nil)
  {
    assume "query_of ev ''sessionId'' = Some sid \<and> sid \<noteq> ''''"
    then have "getReviews db ev =
                 \<lparr>statusCode = 200, headers = corsHeaders,
                  body = Json (JObj [(''success'', JBool True),
                                     (''reviews'', JArr (map public_review ?rows))])\<rparr>"
      by (simp add: getReviews_def getReviews_run_def select_by_session_Some)
    with P show "\<exists>rows. getReviews db ev =
                 \<lparr>statusCode = 200, headers = corsHeaders,
                  body = Json (JObj [(''success'', JBool True),
                                     (''reviews'', JArr (map public_review rows))])\<rparr>
             \<and> mset rows = mset (filter (\<lambda>r. r_session_id r = sid) db)
             \<and> newest_first rows
             \<and> (filter (\<lambda>r. r_session_id r = sid) db = [] \<longrightarrow> rows = [])"
      by blast
  }
  {
    assume "req_query req ''sessionId'' = Some sid \<and> sid \<noteq> ''''"
    then have "server_getReviews db req =
                 \<lparr>statusCode = 200, headers = [],
                  body = Json (JObj [(''success'', JBool True),
                                     (''reviews'', JArr (map public_review ?rows))])\<rparr>"
      by (simp add: server_getReviews_def server_getReviews_run_def select_by_session_Some)
    with P show "\<exists>rows. server_getReviews db req =
                 \<lparr>statusCode = 200, headers = [],
                  body = Json (JObj [(''success'', JBool True),
                                     (''reviews'', JArr (map public_review rows))])\<rparr>
             \<and> mset rows = mset (filter (\<lambda>r. r_session_id r = sid) db)
             \<and> newest_first rows
             \<and> (filter (\<lambda>r. r_session_id r = sid) db = [] \<longrightarrow> rows = [])"
      by blast
  }
  show "public_review row =
        JObj [(''id'', JInt (r_id row)), (''audioId'', JInt (r_audio_id row)),
              (''title'', JStr (r_title row)), (''rating'', JNum (r_rating row)),
              (''timestamp'', (case r_timestamp row of None \<Rightarrow> JNull | Some t \<Rightarrow> JDate t)),
              (''date'', JStr (r_date row)), (''time'', JStr (r_time row)),
              (''sessionId'', JStr (r_session_id row)),
              (''createdAt'', JDate (r_created_at row))]"
    by (simp add: public_review_def)
qed

text \<open>
  C3 on the sample store: session \<open>s1\<close> has the reviews 9 and 7, in this order; a session
  without reviews gets the empty sequence.
\<close>

theorem C3_list_witness:
  "(\<exists>rows. getReviews sample_store (list_event ''s1'') =
             \<lparr>statusCode = 200, headers = corsHeaders,
              body = Json (JObj [(''success'', JBool True),
                                 (''reviews'', JArr (map public_review rows))])\<rparr>
         \<and> map r_id rows = [9, 7])
   \<and> (\<exists>rows. server_getReviews sample_store (list_request ''nobody'') =
             \<lparr>statusCode = 200, headers = [],
              body = Json (JObj [(''success'', JBool True),
                                 (''reviews'', JArr (map public_review rows))])\<rparr>
         \<and> rows = [])"
proof -
  have q: "query_of (list_event ''s1'') ''sessionId'' = Some ''s1'' \<and> ''s1'' \<noteq> ''''"
    "req_query (list_request ''nobody'') ''sessionId'' = Some ''nobody'' \<and> ''nobody'' \<noteq> ''''"
    by (simp_all add: list_event_def list_request_def query_of_def)
  have f: "filter (\<lambda>r. r_session_id r = ''s1'') sample_store
             = [quoted_row, quoted_row\<lparr>r_id := 9, r_audio_id := 5, r_title := ''Track C'', r_rating := 5,
                 r_ip_address := Some ''10.0.0.1'', r_created_at := 2000, r_updated_at := 2500\<rparr>]"
    "filter (\<lambda>r. r_session_id r = ''nobody'') sample_store = []"
    by (simp_all add: sample_store_def quoted_row_def)
  have "getReviews sample_store (list_event ''s1'') =
             \<lparr>statusCode = 200, headers = corsHeaders,
              body = Json (JObj [(''success'', JBool True),
                                 (''reviews'', JArr (map public_review
                 [quoted_row\<lparr>r_id := 9, r_audio_id := 5, r_title := ''Track C'', r_rating := 5,
                 r_ip_address := Some ''10.0.0.1'', r_created_at := 2000, r_updated_at := 2500\<rparr>, quoted_row]))])\<rparr>"
    by (simp add: getReviews_def getReviews_run_def list_event_def query_of_def select_by_session_def f
        order_by_created_at_desc_def quoted_row_def sample_store_def)
  then have A: "\<exists>rows. getReviews sample_store (list_event ''s1'') =
             \<lparr>statusCode = 200, headers = corsHeaders,
              body = Json (JObj [(''success'', JBool True),
                                 (''reviews'', JArr (map public_review rows))])\<rparr>
         \<and> map r_id rows = [9, 7]"
    by (intro exI[of _ "[quoted_row\<lparr>r_id := 9, r_audio_id := 5, r_title := ''Track C'', r_rating := 5,
                 r_ip_address := Some ''10.0.0.1'', r_created_at := 2000, r_updated_at := 2500\<rparr>, quoted_row]"])
       (simp add: quoted_row_def)
  from C3_list_session_reviews[of "list_event ''nobody''" "''nobody''" sample_store "list_request ''nobody''" quoted_row]
    q(2) f(2)
  have B: "\<exists>rows. server_getReviews sample_store (list_request ''nobody'') =
             \<lparr>statusCode = 200, headers = [],
              body = Json (JObj [(''success'', JBool True),
                                 (''reviews'', JArr (map public_review rows))])\<rparr>
         \<and> rows = []"
    by auto
  from A B show ?thesis by blast
qed

subsection \<open>C4: Analytics of the empty store\<close>

text \<open>
  C4. On the empty store the analytics answer with \<open>totalReviews\<close> 0, \<open>averageRating\<close> the
  text \<open>0.00\<close>, and an empty rating distribution and empty per-audio statistics; the counts
  of sessions and audio items are 0 and the first and latest review are \<open>null\<close>. Both
  adapters.
\<close>

theorem C4_analytics_on_empty_store:
  "getAnalytics [] ev =
     \<lparr>statusCode = 200, headers = corsHeaders,
      body = Json (JObj [(''success'', JBool True),
               (''analytics'',
                  JObj [(''totalReviews'', JInt 0),
                        (''averageRating'', JStr ''0.00''),
                        (''uniqueSessions'', JInt 0),
                        (''reviewedAudios'', JInt 0),
                        (''firstReview'', JNull),
                        (''latestReview'', JNull),
                        (''ratingDistribution'', JArr []),
                        (''audioStats'', JArr [])])])\<rparr>
   \<and> server_getAnalytics [] req =
     \<lparr>statusCode = 200, headers = [],
      body = Json (JObj [(''success'', JBool True),
               (''analytics'',
                  JObj [(''totalReviews'', JInt 0),
                        (''averageRating'', JStr ''0.00''),
                        (''uniqueSessions'', JInt 0),
                        (''reviewedAudios'', JInt 0),
                        (''firstReview'', JNull),
                        (''latestReview'', JNull),
                        (''ratingDistribution'', JArr []),
                        (''audioStats'', JArr [])])])\<rparr>"
  by (simp add: getAnalytics_def server_getAnalytics_def analytics_json_def select_analytics_def
      select_rating_distribution_def select_audio_stats_def avg_def to_double_0 toFixed2_0)

subsection \<open>C5: CSV export\<close>

text \<open>
  C5. An admin request with \<open>format=csv\<close>, from whose limit and offset the database takes
  the numbers \<open>l\<close> and \<open>k\<close> of rows, is answered with the text of the header line
  \<open>ID, Audio ID, Title, Rating, Date, Time, Session ID, IP Address, Created At\<close> followed by
  one record for every review of the page, joined by line feeds. The page is the reviews of
  the table, newest first by \<^verbatim>\<open>created_at\<close> in one of the orders that this leaves open,
  without the first \<open>k\<close> and cut at \<open>l\<close>. A record is the nine fields in that order, joined
  by commas; the title stands between two double quotes, and every double quote in it is
  written twice. The title \<open>He said "hi"\<close> becomes \<open>"He said ""hi"""\<close>. Both adapters.
\<close>

theorem C5_csv_export:
  \<open>(query_of ev ''format'' = Some ''csv''
      \<and> row_count_param (effective_limit (query_of ev)) = Some l
      \<and> row_count_param (effective_offset (query_of ev)) = Some k \<longrightarrow>
      (\<exists>sorted. mset sorted = mset db \<and> newest_first sorted
         \<and> getAllReviews e db ev =
              \<lparr>statusCode = 200,
               headers = corsHeaders @ [(''Content-Type'', ''text/csv''),
                                        (''Content-Disposition'', content_disposition e)],
               body = Text (join [CHR 0x0A]
                  (''ID,Audio ID,Title,Rating,Date,Time,Session ID,IP Address,Created At''
                   # map (csv_line e) (take l (drop k sorted))))\<rparr>))
   \<and> (req_query req ''format'' = Some ''csv''
      \<and> row_count_param (effective_limit (req_query req)) = Some l
      \<and> row_count_param (effective_offset (req_query req)) = Some k \<longrightarrow>
      (\<exists>sorted. mset sorted = mset db \<and> newest_first sorted
         \<and> server_getAllReviews e db req =
              \<lparr>statusCode = 200,
               headers = [(''Content-Type'', ''text/csv''),
                          (''Content-Disposition'', content_disposition e)],
               body = Text (join [CHR 0x0A]
                  (''ID,Audio ID,Title,Rating,Date,Time,Session ID,IP Address,Created At''
                   # map (csv_line e) (take l (drop k sorted))))\<rparr>))
   \<and> csv_line e row =
        String_int (r_id row) @ '','' @ String_int (r_audio_id row) @ '','' @
        [CHR 0x22] @ double_quotes (r_title row) @ [CHR 0x22] @ '','' @
        String_decimal2 (r_rating row) @ '','' @ r_date row @ '','' @ r_time row @ '','' @
        r_session_id row @ '','' @ (case r_ip_address row of None \<Rightarrow> '''' | Some a \<Rightarrow> a) @ '','' @
        date_toString e (r_created_at row)
   \<and> double_quotes [] = []
   \<and> double_quotes (c # s) = (if c = CHR 0x22 then [CHR 0x22, CHR 0x22] else [c]) @ double_quotes s
   \<and> [CHR 0x22] @ double_quotes ''He said "hi"'' @ [CHR 0x22] = ''"He said ""hi"""''\<close>
proof (intro conjI impI)
  let ?sorted = "order_by_created_at_desc db"
  have P: "mset ?sorted = mset db \<and> newest_first ?sorted"
    by (simp add: order_desc_mset order_desc_newest_first)
  {
    assume "query_of ev ''format'' = Some ''csv''
      \<and> row_count_param (effective_limit (query_of ev)) = Some l
      \<and> row_count_param (effective_offset (query_of ev)) = Some k"
    then have "getAllReviews e db ev =
              \<lparr>statusCode = 200,
               headers = corsHeaders @ [(''Content-Type'', ''text/csv''),
                                        (''Content-Disposition'', content_disposition e)],
               body = Text (join [CHR 0x0A]
                  (''ID,Audio ID,Title,Rating,Date,Time,Session ID,IP Address,Created At''
                   # map (csv_line e) (take l (drop k ?sorted))))\<rparr>"
      using getAllReviews_csv[of ev l k e db] by (simp add: csvContent_eq)
    with P show "\<exists>sorted. mset sorted = mset db \<and> newest_first sorted
         \<and> getAllReviews e db ev =
              \<lparr>statusCode = 200,
               headers = corsHeaders @ [(''Content-Type'', ''text/csv''),
                                        (''Content-Disposition'', content_disposition e)],
               body = Text (join [CHR 0x0A]
                  (''ID,Audio ID,Title,Rating,Date,Time,Session ID,IP Address,Created At''
                   # map (csv_line e) (take l (drop k sorted))))\<rparr>"
      by blast
  }
  {
    assume "req_query req ''format'' = Some ''csv''
      \<and> row_count_param (effective_limit (req_query req)) = Some l
      \<and> row_count_param (effective_offset (req_query req)) = Some k"
    then have "server_getAllReviews e db req =
              \<lparr>statusCode = 200,
               headers = [(''Content-Type'', ''text/csv''),
                          (''Content-Disposition'', content_disposition e)],
               body = Text (join [CHR 0x0A]
                  (''ID,Audio ID,Title,Rating,Date,Time,Session ID,IP Address,Created At''
                   # map (csv_line e) (take l (drop k ?sorted))))\<rparr>"
      using server_getAllReviews_csv[of req l k e db] by (simp add: csvContent_eq)
    with P show "\<exists>sorted. mset sorted = mset db \<and> newest_first sorted
         \<and> server_getAllReviews e db req =
              \<lparr>statusCode = 200,
               headers = [(''Content-Type'', ''text/csv''),
                          (''Content-Disposition'', content_disposition e)],
               body = Text (join [CHR 0x0A]
                  (''ID,Audio ID,Title,Rating,Date,Time,Session ID,IP Address,Created At''
                   # map (csv_line e) (take l (drop k sorted))))\<rparr>"
      by blast
  }
  show "csv_line e row =
        String_int (r_id row) @ '','' @ String_int (r_audio_id row) @ '','' @
        [CHR 0x22] @ double_quotes (r_title row) @ [CHR 0x22] @ '','' @
        String_decimal2 (r_rating row) @ '','' @ r_date row @ '','' @ r_time row @ '','' @
        r_session_id row @ '','' @ (case r_ip_address row of None \<Rightarrow> '''' | Some a \<Rightarrow> a) @ '','' @
        date_toString e (r_created_at row)"
    by (rule csv_line_eq)
  show "double_quotes [] = []" by (simp add: double_quotes_def)
  show "double_quotes (c # s) = (if c = CHR 0x22 then [CHR 0x22, CHR 0x22] else [c]) @ double_quotes s"
    by (rule double_quotes_Cons)
  show \<open>[CHR 0x22] @ double_quotes ''He said "hi"'' @ [CHR 0x22] = ''"He said ""hi"""''\<close>
    by (simp add: double_quotes_def)
qed

text \<open>
  C5 on the sample store, whose reviews have three different times of creation: limit 2 and
  offset 1 are accepted, and the answer is the second and third newest review as CSV, the
  third with the quoted title.
\<close>

theorem C5_csv_export_witness:
  \<open>row_count_param (effective_limit [''format'' \<mapsto> ''csv'', ''limit'' \<mapsto> ''2'', ''offset'' \<mapsto> ''1'']) = Some 2
   \<and> row_count_param (effective_offset [''format'' \<mapsto> ''csv'', ''limit'' \<mapsto> ''2'', ''offset'' \<mapsto> ''1'']) = Some 1
   \<and> getAllReviews sample_env sample_store (admin_event (Some [''format'' \<mapsto> ''csv'', ''limit'' \<mapsto> ''2'', ''offset'' \<mapsto> ''1'']))
     = \<lparr>statusCode = 200,
         headers = corsHeaders @ [(''Content-Type'', ''text/csv''),
                                  (''Content-Disposition'', ''attachment; filename="reviews-2024-05-01.csv"'')],
         body = Text (join [CHR 0x0A]
           [''ID,Audio ID,Title,Rating,Date,Time,Session ID,IP Address,Created At'',
            ''8,4,"Track B",3,5/1/2024,10:00:00 AM,s2,,Wed May 01 2024 10:00:01 GMT+0000 (Coordinated Universal Time)'',
            ''7,3,"He said ""hi""",4.5,5/1/2024,10:00:00 AM,s1,,Wed May 01 2024 10:00:01 GMT+0000 (Coordinated Universal Time)''])\<rparr>\<close>
proof -
  let ?q = "[''format'' \<mapsto> ''csv'', ''limit'' \<mapsto> ''2'', ''offset'' \<mapsto> ''1'']"
  have q: "query_of (admin_event (Some ?q)) = ?q" by (simp add: query_of_def admin_event_def)
  have p: "effective_limit ?q = Some 2" "effective_offset ?q = Some 1"
    by (simp_all add: effective_limit_def effective_offset_def parseInt_str_def is_space_def
        digit_of_def double_of_int_def Let_def)
  have l: "row_count_param (effective_limit ?q) = Some 2" "row_count_param (effective_offset ?q) = Some 1"
    unfolding p by (simp_all add: row_count_param_def shortest_decimal_def Let_def)
  have d: "distinct (map r_created_at sample_store)"
    by (simp add: sample_store_def quoted_row_def)
  have o: "take 2 (drop (Suc 0) (order_by_created_at_desc sample_store))
        = [quoted_row\<lparr>r_id := 8, r_audio_id := 4, r_title := ''Track B'', r_rating := 3,
                 r_session_id := ''s2'', r_created_at := 1500, r_updated_at := 1500\<rparr>, quoted_row]"
    by (simp add: order_by_created_at_desc_def sample_store_def quoted_row_def)
  have s: "String_int 8 = ''8''" "String_int 4 = ''4''" "String_int 7 = ''7''" "String_int 3 = ''3''"
    "String_decimal2 3 = ''3''" "String_decimal2 (9 / 2) = ''4.5''"
    by code_simp+
  have cd: \<open>content_disposition sample_env = ''attachment; filename="reviews-2024-05-01.csv"''\<close>
    by (simp add: content_disposition_def sample_env_def)
  have t: "date_toString sample_env 1000 = ''Wed May 01 2024 10:00:01 GMT+0000 (Coordinated Universal Time)''"
     "date_toString sample_env 1500 = ''Wed May 01 2024 10:00:01 GMT+0000 (Coordinated Universal Time)''"
    by (simp_all add: sample_env_def)
  from C5_csv_export[of "admin_event (Some ?q)" 2 1 sample_store sample_env "admin_request ?q" quoted_row "CHR ''a''" "''''"]
    q l
  obtain sorted where m: "mset sorted = mset sample_store" and n: "newest_first sorted"
    and r: "getAllReviews sample_env sample_store (admin_event (Some ?q)) =
        \<lparr>statusCode = 200,
         headers = corsHeaders @ [(''Content-Type'', ''text/csv''),
                                  (''Content-Disposition'', content_disposition sample_env)],
         body = Text (join [CHR 0x0A]
                  (''ID,Audio ID,Title,Rating,Date,Time,Session ID,IP Address,Created At''
                   # map (csv_line sample_env) (take 2 (drop 1 sorted))))\<rparr>"
    by auto
  from newest_first_unique[OF m n d] have "sorted = order_by_created_at_desc sample_store" .
  with r o have \<open>getAllReviews sample_env sample_store (admin_event (Some ?q))
     = \<lparr>statusCode = 200,
         headers = corsHeaders @ [(''Content-Type'', ''text/csv''),
                                  (''Content-Disposition'', ''attachment; filename="reviews-2024-05-01.csv"'')],
         body = Text (join [CHR 0x0A]
           [''ID,Audio ID,Title,Rating,Date,Time,Session ID,IP Address,Created At'',
            ''8,4,"Track B",3,5/1/2024,10:00:00 AM,s2,,Wed May 01 2024 10:00:01 GMT+0000 (Coordinated Universal Time)'',
            ''7,3,"He said ""hi""",4.5,5/1/2024,10:00:00 AM,s1,,Wed May 01 2024 10:00:01 GMT+0000 (Coordinated Universal Time)''])\<rparr>\<close>
    by (simp add: cd csv_line_def s t double_quotes_def quoted_row_def)
  with l show ?thesis by blast
qed

subsection \<open>C6: The client address\<close>

text \<open>
  C6, as stated, at a request to the Express application that carries a forwarded-for
  header and comes over a connection from 10.0.0.1: the specification's chain gives the
  header's address, the callback takes and stores 10.0.0.1.
\<close>

theorem C6_server_address_counterexample:
  "server_clientIp sample_request = Some ''10.0.0.1''
   \<and> spec_client_ip (req_headers sample_request ''x-forwarded-for'')
        (req_headers sample_request ''x-real-ip'')
        (connection_remoteAddress sample_request) = Some ''203.0.113.7''
   \<and> map r_ip_address (snd (server_submitReview sample_env [] sample_request)) = [Some ''10.0.0.1'']"
  by (simp add: run_defs sample_defs spec_client_ip_def)

text \<open>
  C6, amended. After a submission answered with status 200, the row with the returned id
  holds the client address, as the column type \<^verbatim>\<open>INET\<close> reads it. In the function adapter
  the client address is the first populated of the forwarded-for header and the real-ip
  header, and one of the two is populated. In the Express application it is \<^verbatim>\<open>req.ip\<close>
  when populated, else the remote address of the connection, and the row holds \<^verbatim>\<open>NULL\<close>
  when neither is populated; no header is read.
\<close>

theorem C6_client_address_per_adapter:
  "(submitReview e db ev = (res, db') \<and> statusCode res = 200 \<longrightarrow>
      (\<exists>i r h a. body res = submit_ok i \<and> r \<in> set db' \<and> r_id r = i
           \<and> first_populated [event_headers ev ''x-forwarded-for'', event_headers ev ''x-real-ip'']
               = Some h
           \<and> inet e h = Some a \<and> r_ip_address r = Some a))
   \<and> (server_submitReview e db req = (res, db') \<and> statusCode res = 200 \<longrightarrow>
      (\<exists>i r. body res = submit_ok i \<and> r \<in> set db' \<and> r_id r = i
           \<and> (case first_populated [req_ip req, connection_remoteAddress req] of
                 None \<Rightarrow> r_ip_address r = None
               | Some h \<Rightarrow> \<exists>a. inet e h = Some a \<and> r_ip_address r = Some a)))"
proof (intro conjI impI)
  assume "submitReview e db ev = (res, db') \<and> statusCode res = 200"
  with submitReview_200[of e db ev res db'] obtain b i where
    u: "upsert_review e db b (clientIp ev) = (Some i, db')" and s: "body res = submit_ok i" by auto
  from upsert_stores_ip[OF u] obtain r where
    r: "r \<in> set db'" "r_id r = i" "nullable (inet e) (clientIp ev) = Some (r_ip_address r)" by blast
  show "\<exists>i r h a. body res = submit_ok i \<and> r \<in> set db' \<and> r_id r = i
           \<and> first_populated [event_headers ev ''x-forwarded-for'', event_headers ev ''x-real-ip'']
               = Some h
           \<and> inet e h = Some a \<and> r_ip_address r = Some a"
  proof (cases "first_populated [event_headers ev ''x-forwarded-for'', event_headers ev ''x-real-ip'']")
    case None
    then have "clientIp ev = Some ''unknown''" by (simp add: clientIp_cases)
    with r(3) show ?thesis by (simp add: inet_unknown)
  next
    case (Some h)
    then have "clientIp ev = Some h" by (simp add: clientIp_cases)
    with r(3) have m: "map_option Some (inet e h) = Some (r_ip_address r)" by simp
    then obtain a where a: "inet e h = Some a" by (cases "inet e h") auto
    with m have "r_ip_address r = Some a" by simp
    with a s r(1,2) Some show ?thesis by blast
  qed
next
  assume "server_submitReview e db req = (res, db') \<and> statusCode res = 200"
  with server_submitReview_200[of e db req res db'] obtain i where
    u: "upsert_review e db (req_body req) (server_clientIp req) = (Some i, db')"
    and s: "body res = submit_ok i" by auto
  from upsert_stores_ip[OF u] obtain r where
    r: "r \<in> set db'" "r_id r = i" "nullable (inet e) (server_clientIp req) = Some (r_ip_address r)"
    by blast
  have "case first_populated [req_ip req, connection_remoteAddress req] of
                 None \<Rightarrow> r_ip_address r = None
               | Some h \<Rightarrow> \<exists>a. inet e h = Some a \<and> r_ip_address r = Some a"
  proof (cases "first_populated [req_ip req, connection_remoteAddress req]")
    case None
    then have c: "server_clientIp req = connection_remoteAddress req"
      and f: "falsy_str (connection_remoteAddress req)"
      by (auto simp: server_clientIp_cases split: if_splits)
    from f r(3) c have "r_ip_address r = None"
      by (cases "connection_remoteAddress req") (auto simp: inet_empty)
    with None show ?thesis by simp
  next
    case (Some h)
    then have "server_clientIp req = Some h" by (simp add: server_clientIp_cases)
    with r(3) have m: "map_option Some (inet e h) = Some (r_ip_address r)" by simp
    then obtain a where a: "inet e h = Some a" by (cases "inet e h") auto
    with m have "r_ip_address r = Some a" by simp
    with a Some show ?thesis by simp
  qed
  with s r(1,2) show "\<exists>i r. body res = submit_ok i \<and> r \<in> set db' \<and> r_id r = i
           \<and> (case first_populated [req_ip req, connection_remoteAddress req] of
                 None \<Rightarrow> r_ip_address r = None
               | Some h \<Rightarrow> \<exists>a. inet e h = Some a \<and> r_ip_address r = Some a)"
    by blast
qed

text \<open>
  C6 on the sample: both submissions are answered with 200; the row of the function adapter
  holds the address of the forwarded-for header, the row of the Express application the
  address of the connection.
\<close>

theorem C6_client_address_witness:
  "statusCode (fst (submitReview sample_env [] sample_event)) = 200
   \<and> first_populated [event_headers sample_event ''x-forwarded-for'',
                       event_headers sample_event ''x-real-ip''] = Some ''203.0.113.7''
   \<and> (\<exists>r. r \<in> set (snd (submitReview sample_env [] sample_event)) \<and> r_id r = 1
          \<and> r_ip_address r = Some ''203.0.113.7'')
   \<and> statusCode (fst (server_submitReview sample_env [] sample_request)) = 200
   \<and> first_populated [req_ip sample_request, connection_remoteAddress sample_request]
        = Some ''10.0.0.1''
   \<and> (\<exists>r. r \<in> set (snd (server_submitReview sample_env [] sample_request)) \<and> r_id r = 1
          \<and> r_ip_address r = Some ''10.0.0.1'')"
proof -
  let ?f = "submitReview sample_env [] sample_event"
  let ?s = "server_submitReview sample_env [] sample_request"
  have f: "statusCode (fst ?f) = 200" "body (fst ?f) = submit_ok 1" by (simp_all add: run_defs sample_defs)
  have s: "statusCode (fst ?s) = 200" "body (fst ?s) = submit_ok 1" by (simp_all add: run_defs sample_defs)
  have ip: "first_populated [event_headers sample_event ''x-forwarded-for'',
                       event_headers sample_event ''x-real-ip''] = Some ''203.0.113.7''"
    "first_populated [req_ip sample_request, connection_remoteAddress sample_request]
        = Some ''10.0.0.1''"
    "inet sample_env ''203.0.113.7'' = Some ''203.0.113.7''"
    "inet sample_env ''10.0.0.1'' = Some ''10.0.0.1''"
    by (simp_all add: run_defs sample_defs)
  note c = C6_client_address_per_adapter[of sample_env "[]" sample_event "fst ?f" "snd ?f" sample_request]
  note d = C6_client_address_per_adapter[of sample_env "[]" sample_event "fst ?s" "snd ?s" sample_request]
  from c f ip have "\<exists>r. r \<in> set (snd ?f) \<and> r_id r = 1 \<and> r_ip_address r = Some ''203.0.113.7''"
    by (auto simp: submit_ok_def)
  moreover from d s ip have "\<exists>r. r \<in> set (snd ?s) \<and> r_id r = 1 \<and> r_ip_address r = Some ''10.0.0.1''"
    by (auto simp: submit_ok_def)
  ultimately show ?thesis using f s ip by simp
qed

text \<open>
  The function adapter without a populated address header. The client address is then the
  text \<open>unknown\<close>, which is no \<^verbatim>\<open>INET\<close>: the statement fails, and a submission that passes
  the checks of the handler is answered with status 500 and stores nothing. The sample event
  without its headers is such a request.
\<close>

lemma function_adapter_without_address:
  assumes "first_populated [event_headers ev ''x-forwarded-for'', event_headers ev ''x-real-ip''] = None"
    and "statusCode (fst (submitReview e db ev)) \<noteq> 400"
  shows "submitReview e db ev =
           (\<lparr>statusCode = 500, headers = corsHeaders, body = error_json ''Internal server error''\<rparr>, db)"
proof -
  from assms(1) have c: "clientIp ev = Some ''unknown''" by (simp add: clientIp_cases)
  show ?thesis
  proof (cases "event_body ev")
    case None
    then show ?thesis by (simp add: submitReview_def)
  next
    case (Some b)
    with assms(2) show ?thesis
      by (simp add: submitReview_def c upsert_unknown split: if_splits)
  qed
qed

lemma function_adapter_without_address_sample:
  "clientIp no_address_event = Some ''unknown''
   \<and> submitReview sample_env [] no_address_event =
       (\<lparr>statusCode = 500, headers = corsHeaders, body = error_json ''Internal server error''\<rparr>, [])"
  by (simp add: run_defs sample_defs no_address_event_def)

subsection \<open>C7: The admin list\<close>



subsection \<open>C8: Preflight and unknown routes\<close>

text \<open>
  C8, as stated, at the request \<open>GET /health\<close> to the Express application: it is none of
  the four logical routes, yet the answer is status 200 with the health report, not 404.
\<close>

theorem C8_health_route_counterexample:
  "statusCode (fst (app exact_route sample_env [] health_request)) = 200
   \<and> body (fst (app exact_route sample_env [] health_request))
       = Json (JObj [(''status'', JStr ''OK''), (''timestamp'', JStr ''2024-05-01T10:00:01.000Z'')])
   \<and> \<not> exact_route ''GET'' ''/api/reviews'' health_request
   \<and> \<not> exact_route ''POST'' ''/api/reviews'' health_request
   \<and> \<not> exact_route ''GET'' ''/api/admin/reviews'' health_request
   \<and> \<not> exact_route ''GET'' ''/api/admin/analytics'' health_request"
  by (simp add: app_def exact_route_def health_request_def sample_env_def)

text \<open>
  C8, amended. In the function adapter every \<open>OPTIONS\<close> request is answered with status
  200, the empty body and the CORS headers, and every other request whose path and method
  are none of the four logical routes is answered with status 404 and the body
  \<open>{error: "Not found"}\<close>, with the CORS headers. In the Express application a request that
  none of the four routes takes, and neither the index route nor the health route, is
  answered with status 404 and the same body. The store stays as it was.
\<close>

theorem C8_preflight_and_not_found:
  "(httpMethod ev = ''OPTIONS'' \<longrightarrow>
      handler e db ev = (\<lparr>statusCode = 200, headers = corsHeaders, body = Text ''''\<rparr>, db))
   \<and> (httpMethod ev \<noteq> ''OPTIONS''
      \<and> (replace_first ''/.netlify/functions/api'' '''' (path ev), httpMethod ev) \<notin> set four_routes \<longrightarrow>
      handler e db ev =
        (\<lparr>statusCode = 404, headers = corsHeaders,
          body = Json (JObj [(''error'', JStr ''Not found'')])\<rparr>, db))
   \<and> (\<not> takes ''GET'' ''/api/reviews'' req \<and> \<not> takes ''POST'' ''/api/reviews'' req
      \<and> \<not> takes ''GET'' ''/api/admin/reviews'' req \<and> \<not> takes ''GET'' ''/api/admin/analytics'' req
      \<and> \<not> takes ''GET'' ''/'' req \<and> \<not> takes ''GET'' ''/health'' req \<longrightarrow>
      app takes e db req =
        (\<lparr>statusCode = 404, headers = [],
          body = Json (JObj [(''error'', JStr ''Not found'')])\<rparr>, db))
   \<and> corsHeaders =
        [(''Access-Control-Allow-Origin'', ''*''),
         (''Access-Control-Allow-Headers'', ''Content-Type''),
         (''Access-Control-Allow-Methods'', ''GET, POST, OPTIONS'')]"
proof (intro conjI impI)
  assume "httpMethod ev = ''OPTIONS''"
  then show "handler e db ev = (\<lparr>statusCode = 200, headers = corsHeaders, body = Text ''''\<rparr>, db)"
    by (simp add: handler_def)
next
  assume h: "httpMethod ev \<noteq> ''OPTIONS''
      \<and> (replace_first ''/.netlify/functions/api'' '''' (path ev), httpMethod ev) \<notin> set four_routes"
  define p where "p = replace_first ''/.netlify/functions/api'' '''' (path ev)"
  from h have "httpMethod ev \<noteq> ''OPTIONS''" "(p, httpMethod ev) \<notin> set four_routes"
    by (simp_all add: p_def)
  then have "(if httpMethod ev = ''OPTIONS'' then
        (\<lparr>statusCode = 200, headers = corsHeaders, body = Text ''''\<rparr>, db)
      else
        if p = ''/reviews'' \<and> httpMethod ev = ''GET'' then (getReviews db ev, db)
           else if p = ''/reviews'' \<and> httpMethod ev = ''POST'' then submitReview e db ev
           else if p = ''/admin/reviews'' \<and> httpMethod ev = ''GET'' then (getAllReviews e db ev, db)
           else if p = ''/admin/analytics'' \<and> httpMethod ev = ''GET'' then (getAnalytics db ev, db)
           else (\<lparr>statusCode = 404, headers = corsHeaders, body = error_json ''Not found''\<rparr>, db))
      = (\<lparr>statusCode = 404, headers = corsHeaders,
          body = Json (JObj [(''error'', JStr ''Not found'')])\<rparr>, db)"
    by (auto simp: four_routes_def error_json_def)
  then show "handler e db ev =
        (\<lparr>statusCode = 404, headers = corsHeaders,
          body = Json (JObj [(''error'', JStr ''Not found'')])\<rparr>, db)"
    unfolding handler_def Let_def p_def .
next
  assume "\<not> takes ''GET'' ''/api/reviews'' req \<and> \<not> takes ''POST'' ''/api/reviews'' req
      \<and> \<not> takes ''GET'' ''/api/admin/reviews'' req \<and> \<not> takes ''GET'' ''/api/admin/analytics'' req
      \<and> \<not> takes ''GET'' ''/'' req \<and> \<not> takes ''GET'' ''/health'' req"
  then show "app takes e db req =
        (\<lparr>statusCode = 404, headers = [],
          body = Json (JObj [(''error'', JStr ''Not found'')])\<rparr>, db)"
    by (simp add: app_def error_json_def)
next
  show "corsHeaders =
        [(''Access-Control-Allow-Origin'', ''*''),
         (''Access-Control-Allow-Headers'', ''Content-Type''),
         (''Access-Control-Allow-Methods'', ''GET, POST, OPTIONS'')]"
    by (simp add: corsHeaders_def)
qed

text \<open>
  C8 on samples: an \<open>OPTIONS\<close> request and a \<open>DELETE\<close> request to the function adapter, and
  \<open>GET /nothing\<close> to the Express application.
\<close>

theorem C8_preflight_and_not_found_witness:
  "handler sample_env sample_store (admin_event None\<lparr>httpMethod := ''OPTIONS''\<rparr>)
     = (\<lparr>statusCode = 200, headers = corsHeaders, body = Text ''''\<rparr>, sample_store)
   \<and> handler sample_env sample_store (admin_event None\<lparr>httpMethod := ''DELETE''\<rparr>)
     = (\<lparr>statusCode = 404, headers = corsHeaders,
         body = Json (JObj [(''error'', JStr ''Not found'')])\<rparr>, sample_store)
   \<and> app exact_route sample_env sample_store (health_request\<lparr>req_path := ''/nothing''\<rparr>)
     = (\<lparr>statusCode = 404, headers = [],
         body = Json (JObj [(''error'', JStr ''Not found'')])\<rparr>, sample_store)"
proof -
  have r: "replace_first ''/.netlify/functions/api'' '''' ''/.netlify/functions/api/admin/reviews'' = ''/admin/reviews''"
    by simp
  from C8_preflight_and_not_found[of "admin_event None\<lparr>httpMethod := ''OPTIONS''\<rparr>" sample_env sample_store exact_route health_request]
  have A: "handler sample_env sample_store (admin_event None\<lparr>httpMethod := ''OPTIONS''\<rparr>)
     = (\<lparr>statusCode = 200, headers = corsHeaders, body = Text ''''\<rparr>, sample_store)"
    by (simp add: admin_event_def)
  from C8_preflight_and_not_found[of "admin_event None\<lparr>httpMethod := ''DELETE''\<rparr>" sample_env sample_store exact_route
      "health_request\<lparr>req_path := ''/nothing''\<rparr>"]
  have B: "handler sample_env sample_store (admin_event None\<lparr>httpMethod := ''DELETE''\<rparr>)
     = (\<lparr>statusCode = 404, headers = corsHeaders,
         body = Json (JObj [(''error'', JStr ''Not found'')])\<rparr>, sample_store)"
    and C: "app exact_route sample_env sample_store (health_request\<lparr>req_path := ''/nothing''\<rparr>)
     = (\<lparr>statusCode = 404, headers = [],
         body = Json (JObj [(''error'', JStr ''Not found'')])\<rparr>, sample_store)"
    by (simp_all add: admin_event_def four_routes_def health_request_def exact_route_def r)
  from A B C show ?thesis by blast
qed

subsection \<open>C9: An audio id of 0\<close>


subsection \<open>C10: An empty session id\<close>

text \<open>
  C10. A list request whose \<open>sessionId\<close> parameter is the empty string gets the answer of a
  request without the parameter: status 400 with the error \<open>Session ID is required\<close>, and
  the handler makes no call of \<^verbatim>\<open>pool.query\<close>. Both adapters.
\<close>

theorem C10_empty_sessionId_is_absent:
  "getReviews_run db (ev\<lparr>queryStringParameters := Some (q(''sessionId'' \<mapsto> ''''))\<rparr>)
     = (\<lparr>statusCode = 400, headers = corsHeaders,
         body = Json (JObj [(''error'', JStr ''Session ID is required'')])\<rparr>, [])
   \<and> getReviews_run db (ev\<lparr>queryStringParameters := Some (q(''sessionId'' := None))\<rparr>)
     = (\<lparr>statusCode = 400, headers = corsHeaders,
         body = Json (JObj [(''error'', JStr ''Session ID is required'')])\<rparr>, [])
   \<and> getReviews_run db (ev\<lparr>queryStringParameters := None\<rparr>)
     = (\<lparr>statusCode = 400, headers = corsHeaders,
         body = Json (JObj [(''error'', JStr ''Session ID is required'')])\<rparr>, [])
   \<and> server_getReviews_run db (req\<lparr>req_query := q(''sessionId'' \<mapsto> '''')\<rparr>)
     = (\<lparr>statusCode = 400, headers = [],
         body = Json (JObj [(''error'', JStr ''Session ID is required'')])\<rparr>, [])
   \<and> server_getReviews_run db (req\<lparr>req_query := q(''sessionId'' := None)\<rparr>)
     = (\<lparr>statusCode = 400, headers = [],
         body = Json (JObj [(''error'', JStr ''Session ID is required'')])\<rparr>, [])
   \<and> getReviews db (ev\<lparr>queryStringParameters := Some (q(''sessionId'' \<mapsto> ''''))\<rparr>)
     = \<lparr>statusCode = 400, headers = corsHeaders, body = error_json ''Session ID is required''\<rparr>
   \<and> getReviews db (ev\<lparr>queryStringParameters := Some (q(''sessionId'' := None))\<rparr>)
     = \<lparr>statusCode = 400, headers = corsHeaders, body = error_json ''Session ID is required''\<rparr>
   \<and> getReviews db (ev\<lparr>queryStringParameters := None\<rparr>)
     = \<lparr>statusCode = 400, headers = corsHeaders, body = error_json ''Session ID is required''\<rparr>
   \<and> server_getReviews db (req\<lparr>req_query := q(''sessionId'' \<mapsto> '''')\<rparr>)
     = \<lparr>statusCode = 400, headers = [], body = error_json ''Session ID is required''\<rparr>
   \<and> server_getReviews db (req\<lparr>req_query := q(''sessionId'' := None)\<rparr>)
     = \<lparr>statusCode = 400, headers = [], body = error_json ''Session ID is required''\<rparr>"
  by (simp add: getReviews_def getReviews_run_def server_getReviews_def server_getReviews_run_def
      query_of_def error_json_def)

text \<open>
  For comparison, a list request with a session id that is not empty makes one call, the
  \<^verbatim>\<open>SELECT\<close> with the session id as its parameter.
\<close>

lemma list_runs_one_select:
  assumes "sid \<noteq> ''''"
  shows "snd (getReviews_run db (ev\<lparr>queryStringParameters := Some (q(''sessionId'' \<mapsto> sid))\<rparr>))
           = [(''SELECT * FROM reviews WHERE session_id = $1 ORDER BY created_at DESC'', [Some sid])]"
    and "snd (server_getReviews_run db (req\<lparr>req_query := q(''sessionId'' \<mapsto> sid)\<rparr>))
           = [(''SELECT * FROM reviews WHERE session_id = $1 ORDER BY created_at DESC'', [Some sid])]"
  using assms by (simp_all add: getReviews_run_def server_getReviews_run_def query_of_def Let_def)

end
